theory Spec2Isabelle
  imports Complex_Main "HOL-Library.Multiset"
begin

section \<open>JavaScript values\<close>

text \<open>
  The request bodies and the findings reach the code as parsed JSON, so the values the
  code inspects are JSON values. \<open>JNum\<close> carries the number read; only its being zero
  matters below. \<open>JObj\<close> lists an object's own properties, each key once. \<open>JDate\<close> is a
  \<open>Date\<close> object (milliseconds since the epoch), which \<open>res.json\<close> serialises as an
  ISO-8601 string; it occurs in responses and stored rows only, never in a parsed body.
  Strings are lists of bytes: ASCII text as it is, a character outside ASCII as the
  bytes of its UTF-8 encoding.
\<close>

datatype json =
    JNull
  | JBool bool
  | JNum real
  | JStr string
  | JArr "json list"
  | JObj "(string \<times> json) list"
  | JDate nat

text \<open>Exceptions are values; \<open>message\<close> is the \<open>error.message\<close> the handlers read.\<close>

datatype exn =
    TypeError string
  | PrismaError string
  | FsError string
  | RenderError string

fun message :: "exn \<Rightarrow> string" where
  "message (TypeError m) = m"
| "message (PrismaError m) = m"
| "message (FsError m) = m"
| "message (RenderError m) = m"

text \<open>JavaScript truthiness: \<open>null\<close>, \<open>false\<close>, \<open>0\<close> and \<open>""\<close> are falsy.\<close>

fun truthy :: "json \<Rightarrow> bool" where
  "truthy JNull = False"
| "truthy (JBool b) = b"
| "truthy (JNum x) = (x \<noteq> 0)"
| "truthy (JStr s) = (s \<noteq> [])"
| "truthy (JArr _) = True"
| "truthy (JObj _) = True"
| "truthy (JDate _) = True"

text \<open>
  Property access \<open>v.k\<close>, for the property names the code reads (none of them is a
  built-in property): \<open>null.k\<close> throws, an object yields its own property or
  \<open>undefined\<close> (\<open>None\<close>), every other value yields \<open>undefined\<close>.
\<close>

fun getProp :: "json \<Rightarrow> string \<Rightarrow> exn + json option" where
  "getProp JNull k = Inl (TypeError (''Cannot read properties of null (reading '' @ k @ '')''))"
| "getProp (JObj kvs) k = Inr (map_of kvs k)"
| "getProp _ k = Inr None"

text \<open>\<open>a || b\<close> on a possibly undefined \<open>a\<close>.\<close>

fun orElse :: "json option \<Rightarrow> json \<Rightarrow> json" where
  "orElse None d = d"
| "orElse (Some v) d = (if truthy v then v else d)"

text \<open>
  \<open>String.prototype.toUpperCase\<close>, for ASCII text: the letters \<open>a\<close> to \<open>z\<close> are
  raised, every other byte is left as it is.
\<close>

definition toUpperChar :: "char \<Rightarrow> char" where
  "toUpperChar c =
     (case map_of (zip ''abcdefghijklmnopqrstuvwxyz'' ''ABCDEFGHIJKLMNOPQRSTUVWXYZ'') c of
        Some u \<Rightarrow> u
      | None \<Rightarrow> c)"

definition toUpperCase :: "string \<Rightarrow> string" where
  "toUpperCase s = map toUpperChar s"

text \<open>
  The method call \<open>v.toUpperCase()\<close>: only a string has the method; on any other
  value the call throws.
\<close>

fun callToUpperCase :: "json \<Rightarrow> exn + string" where
  "callToUpperCase (JStr s) = Inr (toUpperCase s)"
| "callToUpperCase _ = Inl (TypeError ''(intermediate value).toUpperCase is not a function'')"


section \<open>PDF generator: severity analysis, colours, bar widths\<close>

record analysis =
  totalFindings :: int
  criticalCount :: int
  highCount :: int
  mediumCount :: int
  lowCount :: int

text \<open>\<open>(finding.severity || 'MEDIUM').toUpperCase()\<close>\<close>

definition severityOf :: "json \<Rightarrow> exn + string" where
  "severityOf finding =
     (case getProp finding ''severity'' of
        Inl e \<Rightarrow> Inl e
      | Inr v \<Rightarrow> callToUpperCase (orElse v (JStr ''MEDIUM'')))"

text \<open>The \<open>switch\<close> of \<open>analyzeFindings\<close>; it has no default branch.\<close>

definition countSeverity :: "analysis \<Rightarrow> string \<Rightarrow> analysis" where
  "countSeverity counts severity =
     (if severity = ''CRITICAL'' then counts\<lparr>criticalCount := criticalCount counts + 1\<rparr>
      else if severity = ''HIGH'' then counts\<lparr>highCount := highCount counts + 1\<rparr>
      else if severity = ''MEDIUM'' then counts\<lparr>mediumCount := mediumCount counts + 1\<rparr>
      else if severity = ''LOW'' then counts\<lparr>lowCount := lowCount counts + 1\<rparr>
      else counts)"

text \<open>The \<open>forEach\<close> loop; an exception in the callback ends it.\<close>

fun forEachFinding :: "json list \<Rightarrow> analysis \<Rightarrow> exn + analysis" where
  "forEachFinding [] counts = Inr counts"
| "forEachFinding (finding # rest) counts =
     (case severityOf finding of
        Inl e \<Rightarrow> Inl e
      | Inr severity \<Rightarrow> forEachFinding rest (countSeverity counts severity))"

definition analyzeFindings :: "json list \<Rightarrow> exn + analysis" where
  "analyzeFindings findings =
     forEachFinding findings
       \<lparr>totalFindings = int (length findings), criticalCount = 0, highCount = 0,
        mediumCount = 0, lowCount = 0\<rparr>"

definition getSeverityColor :: "string \<Rightarrow> string" where
  "getSeverityColor severity =
     (if severity = ''CRITICAL'' then ''#dc2626''
      else if severity = ''HIGH'' then ''#f97316''
      else if severity = ''MEDIUM'' then ''#eab308''
      else if severity = ''LOW'' then ''#22c55e''
      else ''#000000'')"

text \<open>
  \<open>Math.max(50, 300 * (sev.count / Math.max(1, totalFindings)))\<close>. The counts are
  integers; \<open>fl\<close> is the rounding that floating-point arithmetic applies to the
  quotient and to the product.
\<close>

definition barWidth :: "(real \<Rightarrow> real) \<Rightarrow> int \<Rightarrow> int \<Rightarrow> real" where
  "barWidth fl sev_count total_findings =
     max 50 (fl (300 * fl (real_of_int sev_count / real_of_int (max 1 total_findings))))"


section \<open>Strings, numbers and paths of the runtime\<close>

text \<open>\<open>String(n)\<close> for a non-negative integer, as template literals print it.\<close>

definition digit :: "nat \<Rightarrow> char" where
  "digit d = ''0123456789'' ! (d mod 10)"

fun decimal :: "nat \<Rightarrow> string" where
  "decimal n = (if n < 10 then [digit n] else decimal (n div 10) @ [digit (n mod 10)])"

declare decimal.simps [simp del]

text \<open>
  \<open>`${(bytes / 1024).toFixed(2)} KB`\<close>: the quotient is exact in floating point, and
  \<open>toFixed(2)\<close> rounds it to the nearest hundredth, the larger one at a tie.
\<close>

definition kilobytes :: "nat \<Rightarrow> string" where
  "kilobytes n =
     (let q = (n * 200 + 1024) div 2048
      in decimal (q div 100) @ ''.'' @ [digit (q mod 100 div 10), digit (q mod 10)] @ '' KB'')"

text \<open>\<open>s.endsWith(t)\<close>\<close>

definition endsWith :: "string \<Rightarrow> string \<Rightarrow> bool" where
  "endsWith s t = (length t \<le> length s \<and> drop (length s - length t) s = t)"

text \<open>
  \<open>path.join(dir, name)\<close> for an absolute \<open>dir\<close> on a POSIX system: the two are joined
  with a slash and the result is normalised (empty and \<open>.\<close> segments dropped, \<open>..\<close>
  resolved, a trailing slash kept).
\<close>

fun splitSlash :: "string \<Rightarrow> string \<Rightarrow> string list" where
  "splitSlash cur [] = [rev cur]"
| "splitSlash cur (c # cs) =
     (if c = CHR ''/'' then rev cur # splitSlash [] cs else splitSlash (c # cur) cs)"

fun resolveSegments :: "string list \<Rightarrow> string list \<Rightarrow> string list" where
  "resolveSegments acc [] = rev acc"
| "resolveSegments acc (seg # segs) =
     (if seg = [] \<or> seg = ''.'' then resolveSegments acc segs
      else if seg = ''..'' then resolveSegments (tl acc) segs
      else resolveSegments (seg # acc) segs)"

definition normalizeAbsolute :: "string \<Rightarrow> string" where
  "normalizeAbsolute p =
     (let segs = resolveSegments [] (splitSlash [] p);
          body = concat (map (\<lambda>seg. CHR ''/'' # seg) segs)
      in if segs = [] then ''/''
         else if p \<noteq> [] \<and> last p = CHR ''/'' then body @ ''/'' else body)"

definition path_join :: "string \<Rightarrow> string \<Rightarrow> string" where
  "path_join dir name = normalizeAbsolute (dir @ ''/'' @ name)"


section \<open>The world of the service: database, file system, clock\<close>

text \<open>A row of the \<open>Report\<close> table, columns as the migration creates them.\<close>

record report =
  rowId :: string
  executionId :: string
  title :: "string option"
  inputFindings :: json
  summary :: json
  pdfUrl :: "string option"
  pdfPath :: "string option"
  cloudinaryFileId :: "string option"
  fileSize :: "string option"
  status :: string
  createdAt :: nat
  updatedAt :: nat
  generatedAt :: nat

type_synonym bytes = "nat list"

record fsFile =
  content :: bytes
  birthtime :: nat

text \<open>
  \<open>reports\<close> is the table, \<open>files\<close> the regular files of the file system by
  normalised absolute path, \<open>clock\<close> what \<open>Date.now()\<close> reads, \<open>nextId\<close> the state of
  the primary-key generator. \<open>faults\<close> says what the coming calls into the database
  and the file system do: each call takes the head, \<open>Some e\<close> makes it throw \<open>e\<close>,
  \<open>None\<close> or an empty list lets it go through.
\<close>

record world =
  reports :: "report list"
  files :: "(string \<times> fsFile) list"
  clock :: nat
  nextId :: nat
  faults :: "exn option list"

text \<open>Computations that read and change the world and may throw.\<close>

type_synonym 'a io = "world \<Rightarrow> (exn + 'a) \<times> world"

definition retIO :: "'a \<Rightarrow> 'a io" where
  "retIO x w = (Inr x, w)"

definition throwIO :: "exn \<Rightarrow> 'a io" where
  "throwIO e w = (Inl e, w)"

definition liftIO :: "exn + 'a \<Rightarrow> 'a io" where
  "liftIO r w = (r, w)"

definition bindIO :: "'a io \<Rightarrow> ('a \<Rightarrow> 'b io) \<Rightarrow> 'b io" where
  "bindIO m f w = (case m w of (Inl e, w') \<Rightarrow> (Inl e, w') | (Inr x, w') \<Rightarrow> f x w')"

text \<open>\<open>try { body } catch (error) { handler }\<close>, where the handler itself cannot throw.\<close>

definition tryCatch :: "'a io \<Rightarrow> (exn \<Rightarrow> world \<Rightarrow> 'a \<times> world) \<Rightarrow> world \<Rightarrow> 'a \<times> world" where
  "tryCatch m h w = (case m w of (Inl e, w') \<Rightarrow> h e w' | (Inr x, w') \<Rightarrow> (x, w'))"

text \<open>A call that leaves the process: it fails when the environment says so.\<close>

definition external :: "'a io \<Rightarrow> 'a io" where
  "external m w =
     (case faults w of
        [] \<Rightarrow> m w
      | None # rest \<Rightarrow> m (w\<lparr>faults := rest\<rparr>)
      | Some e # rest \<Rightarrow> (Inl e, w\<lparr>faults := rest\<rparr>))"

definition now :: "nat io" where
  "now w = (Inr (clock w), w)"


subsection \<open>The database client\<close>

definition prisma_queryRaw_select1 :: "unit io" where
  "prisma_queryRaw_select1 = external (retIO ())"

definition prisma_findUnique_id :: "string \<Rightarrow> report option io" where
  "prisma_findUnique_id i = external (\<lambda>w. (Inr (find (\<lambda>r. rowId r = i) (reports w)), w))"

text \<open>
  \<open>executionId\<close> is a \<open>String\<close> column: the client rejects any other value before it
  queries.
\<close>

definition prisma_findUnique_executionId :: "json \<Rightarrow> report option io" where
  "prisma_findUnique_executionId e =
     (case e of
        JStr s \<Rightarrow> external (\<lambda>w. (Inr (find (\<lambda>r. executionId r = s) (reports w)), w))
      | _ \<Rightarrow> throwIO (PrismaError ''Argument executionId: Invalid value provided. Expected String.''))"

text \<open>
  \<open>create\<close> fills in the generated key and the two timestamps the schema defaults;
  the primary key and \<open>executionId\<close> are unique.
\<close>

definition prisma_create ::
  "string \<Rightarrow> string \<Rightarrow> json \<Rightarrow> json \<Rightarrow> string \<Rightarrow> nat \<Rightarrow> report io" where
  "prisma_create e t findings summ st gen =
     external (\<lambda>w.
       let r = \<lparr>rowId = ''r'' @ decimal (nextId w), executionId = e, title = Some t,
                inputFindings = findings, summary = summ, pdfUrl = None, pdfPath = None,
                cloudinaryFileId = None, fileSize = None, status = st,
                createdAt = clock w, updatedAt = clock w, generatedAt = gen\<rparr>
       in if \<exists>x \<in> set (reports w). rowId x = rowId r \<or> executionId x = e
          then (Inl (PrismaError ''Unique constraint failed''), w)
          else (Inr r, w\<lparr>reports := reports w @ [r], nextId := Suc (nextId w)\<rparr>))"

text \<open>\<open>update({where: {id}, data: {pdfUrl, pdfPath, fileSize, status, updatedAt}})\<close>\<close>

definition prisma_update_completed ::
  "string \<Rightarrow> string \<Rightarrow> string \<Rightarrow> string \<Rightarrow> string \<Rightarrow> nat \<Rightarrow> report io" where
  "prisma_update_completed i url pth fsize st upd =
     external (\<lambda>w.
       case find (\<lambda>r. rowId r = i) (reports w) of
         None \<Rightarrow> (Inl (PrismaError ''Record to update not found''), w)
       | Some r \<Rightarrow>
           let change = (\<lambda>x. x\<lparr>pdfUrl := Some url, pdfPath := Some pth, fileSize := Some fsize,
                                 status := st, updatedAt := upd\<rparr>)
           in (Inr (change r),
               w\<lparr>reports := map (\<lambda>x. if rowId x = i then change x else x) (reports w)\<rparr>))"

text \<open>\<open>updateMany({where: {executionId}, data: {status, summary, updatedAt}})\<close>\<close>

definition prisma_updateMany_failed :: "json \<Rightarrow> string \<Rightarrow> json \<Rightarrow> nat \<Rightarrow> nat io" where
  "prisma_updateMany_failed e st summ upd =
     (case e of
        JStr s \<Rightarrow>
          external (\<lambda>w.
            (Inr (length (filter (\<lambda>r. executionId r = s) (reports w))),
             w\<lparr>reports :=
                 map (\<lambda>r. if executionId r = s
                          then r\<lparr>status := st, summary := summ, updatedAt := upd\<rparr> else r)
                   (reports w)\<rparr>))
      | _ \<Rightarrow> throwIO (PrismaError ''Argument executionId: Invalid value provided. Expected String.''))"

definition prisma_delete :: "string \<Rightarrow> report io" where
  "prisma_delete i =
     external (\<lambda>w.
       case find (\<lambda>r. rowId r = i) (reports w) of
         None \<Rightarrow> (Inl (PrismaError ''Record to delete does not exist''), w)
       | Some r \<Rightarrow> (Inr r, w\<lparr>reports := filter (\<lambda>x. rowId x \<noteq> i) (reports w)\<rparr>))"

definition prisma_count :: "(report \<Rightarrow> bool) \<Rightarrow> nat io" where
  "prisma_count wh = external (\<lambda>w. (Inr (length (filter wh (reports w))), w))"

text \<open>
  \<open>findMany({where, orderBy, skip, take})\<close>. The ordering is the database's:
  \<open>order\<close> gives the rows in the order asked for, or \<open>None\<close> where the client rejects
  the column or the direction. A negative \<open>skip\<close> is rejected.
\<close>

definition prisma_findMany ::
  "(report list \<Rightarrow> report list option) \<Rightarrow> (report \<Rightarrow> bool) \<Rightarrow> int \<Rightarrow> nat \<Rightarrow> report list io" where
  "prisma_findMany order wh skip tk =
     (if skip < 0 then throwIO (PrismaError ''Invalid value for skip argument'')
      else external (\<lambda>w.
        case order (filter wh (reports w)) of
          None \<Rightarrow> (Inl (PrismaError ''Invalid value for orderBy argument''), w)
        | Some rows \<Rightarrow> (Inr (take tk (drop (nat skip) rows)), w)))"


subsection \<open>The file system\<close>

definition fs_existsSync :: "string \<Rightarrow> world \<Rightarrow> bool" where
  "fs_existsSync p w = (map_of (files w) p \<noteq> None)"

text \<open>Writing keeps the birth time of a file that is already there.\<close>

definition fs_writeFileSync :: "string \<Rightarrow> bytes \<Rightarrow> unit io" where
  "fs_writeFileSync p d =
     external (\<lambda>w.
       (Inr (),
        w\<lparr>files :=
            (case map_of (files w) p of
               None \<Rightarrow> files w @ [(p, \<lparr>content = d, birthtime = clock w\<rparr>)]
             | Some f \<Rightarrow> map (\<lambda>(q, g). if q = p then (q, g\<lparr>content := d\<rparr>) else (q, g)) (files w))\<rparr>))"

definition fs_unlinkSync :: "string \<Rightarrow> unit io" where
  "fs_unlinkSync p =
     external (\<lambda>w.
       if fs_existsSync p w
       then (Inr (), w\<lparr>files := filter (\<lambda>(q, g). q \<noteq> p) (files w)\<rparr>)
       else (Inl (FsError ''ENOENT: no such file or directory''), w))"

text \<open>
  The entries of a directory that holds regular files only: the names \<open>n\<close>, free of
  slashes, with a file at \<open>dir/n\<close>; each with its \<open>statSync\<close> result.
\<close>

definition entryOf :: "string \<Rightarrow> string \<times> fsFile \<Rightarrow> (string \<times> fsFile) option" where
  "entryOf dir e =
     (let p = fst e; k = length dir + 1; n = drop k p
      in if take k p = dir @ ''/'' \<and> n \<noteq> [] \<and> CHR ''/'' \<notin> set n then Some (n, snd e) else None)"

definition fs_readdirSync :: "string \<Rightarrow> (string \<times> fsFile) list io" where
  "fs_readdirSync dir = external (\<lambda>w. (Inr (List.map_filter (entryOf dir) (files w)), w))"


section \<open>The report routes\<close>

text \<open>
  A response is JSON with a status code (\<open>res.status(c).json(v)\<close>, 200 when no status
  is set) or a file streamed with its headers.
\<close>

datatype response =
    JsonResponse nat json
  | FileResponse "(string \<times> string) list" bytes

fun statusCode :: "response \<Rightarrow> nat" where
  "statusCode (JsonResponse c v) = c"
| "statusCode (FileResponse hs d) = 200"

record securityFinding =
  sf_id :: json
  sf_title :: json
  sf_severity :: string
  sf_description :: json
  sf_recommendation :: json
  sf_timestamp :: json
  sf_source :: json

record reportData =
  rd_executionId :: string
  rd_findings :: "securityFinding list"
  rd_generatedAt :: nat
  rd_counts :: analysis

text \<open>
  What the routes are built on: the directory of the PDF files, the renderer
  (\<open>PDFGenerator.generateReport\<close>, which resolves with the bytes of the document or
  rejects) and the database's ordering of rows by a column and a direction.
\<close>

record env =
  reportsDir :: string
  generateReport :: "reportData \<Rightarrow> exn + bytes"
  orderBy :: "string \<Rightarrow> string \<Rightarrow> report list \<Rightarrow> report list option"

text \<open>The parts of a generate request the handler reads.\<close>

record genReq =
  body :: "(string \<times> json) list"
  protocol :: string
  host :: "string option"

text \<open>
  The query of a list request. \<open>page\<close> and \<open>limit\<close> hold what \<open>Number(...)\<close> makes of
  the parameter when it is given, for the requests where that is a non-negative integer.
\<close>

record listQuery =
  page :: "nat option"
  limit :: "nat option"
  statusParam :: "string option"
  sortBy :: "string option"
  sortOrder :: "string option"

definition jsonString :: "string option \<Rightarrow> json" where
  "jsonString v = (case v of None \<Rightarrow> JNull | Some s \<Rightarrow> JStr s)"

definition jsonNat :: "nat \<Rightarrow> json" where
  "jsonNat n = JNum (real n)"

definition jsonInt :: "int \<Rightarrow> json" where
  "jsonInt n = JNum (real_of_int n)"

definition analysisJson :: "analysis \<Rightarrow> json" where
  "analysisJson a =
     JObj [(''totalFindings'', jsonInt (totalFindings a)),
           (''criticalCount'', jsonInt (criticalCount a)),
           (''highCount'', jsonInt (highCount a)),
           (''mediumCount'', jsonInt (mediumCount a)),
           (''lowCount'', jsonInt (lowCount a))]"

definition reportJson :: "report \<Rightarrow> json" where
  "reportJson r =
     JObj [(''id'', JStr (rowId r)),
           (''executionId'', JStr (executionId r)),
           (''title'', jsonString (title r)),
           (''inputFindings'', inputFindings r),
           (''summary'', summary r),
           (''pdfUrl'', jsonString (pdfUrl r)),
           (''pdfPath'', jsonString (pdfPath r)),
           (''cloudinaryFileId'', jsonString (cloudinaryFileId r)),
           (''fileSize'', jsonString (fileSize r)),
           (''status'', JStr (status r)),
           (''createdAt'', JDate (createdAt r)),
           (''updatedAt'', JDate (updatedAt r)),
           (''generatedAt'', JDate (generatedAt r))]"

text \<open>The \<open>select\<close> of the list route.\<close>

definition selectJson :: "report \<Rightarrow> json" where
  "selectJson r =
     JObj [(''id'', JStr (rowId r)),
           (''executionId'', JStr (executionId r)),
           (''title'', jsonString (title r)),
           (''status'', JStr (status r)),
           (''pdfUrl'', jsonString (pdfUrl r)),
           (''fileSize'', jsonString (fileSize r)),
           (''createdAt'', JDate (createdAt r)),
           (''updatedAt'', JDate (updatedAt r)),
           (''generatedAt'', JDate (generatedAt r))]"

definition errorBody :: "string \<Rightarrow> json" where
  "errorBody e = JObj [(''success'', JBool False), (''error'', JStr e)]"


subsection \<open>GET /health\<close>

text \<open>
  The two \<open>database\<close> strings end in an emoji: U+2705 (bytes E2 9C 85) after
  \<open>Connected\<close>, U+274C (bytes E2 9D 8C) after \<open>Disconnected\<close>.
\<close>

definition get_health :: "world \<Rightarrow> response \<times> world" where
  "get_health =
     tryCatch
       (bindIO prisma_queryRaw_select1 (\<lambda>_.
        bindIO now (\<lambda>t.
        retIO (JsonResponse 200
          (JObj [(''status'', JStr ''OK''), (''service'', JStr ''Reports API''),
                 (''database'', JStr (''Connected '' @ [CHR 0xE2, CHR 0x9C, CHR 0x85])),
                 (''timestamp'', JDate t)])))))
       (\<lambda>error w.
          (JsonResponse 500
             (JObj [(''status'', JStr ''ERROR''), (''service'', JStr ''Reports API''),
                    (''database'', JStr (''Disconnected '' @ [CHR 0xE2, CHR 0x9D, CHR 0x8C])),
                    (''error'', JStr (message error)),
                    (''timestamp'', JDate (clock w))]), w))"


subsection \<open>POST /generate\<close>

text \<open>A property of a finding that is known not to be \<open>null\<close>.\<close>

definition member :: "json \<Rightarrow> string \<Rightarrow> json option" where
  "member v k = (case getProp v k of Inl e \<Rightarrow> None | Inr x \<Rightarrow> x)"

text \<open>
  The callback of \<open>findings.map\<close>: the first property read throws on \<open>null\<close>, the
  severity is read as in \<open>analyzeFindings\<close>, every other field falls back to its default.
\<close>

definition normalizeFinding :: "nat \<Rightarrow> nat \<Rightarrow> json \<Rightarrow> exn + securityFinding" where
  "normalizeFinding t index f =
     (case getProp f ''id'' of
        Inl e \<Rightarrow> Inl e
      | Inr idv \<Rightarrow>
          (case severityOf f of
             Inl e \<Rightarrow> Inl e
           | Inr sev \<Rightarrow>
               Inr \<lparr>sf_id = orElse idv (JStr (''finding-'' @ decimal (index + 1))),
                    sf_title = orElse (member f ''title'')
                                 (JStr (''Security Finding '' @ decimal (index + 1))),
                    sf_severity = sev,
                    sf_description = orElse (member f ''description'')
                                 (orElse (member f ''details'') (JStr ''No description provided.'')),
                    sf_recommendation = orElse (member f ''recommendation'')
                                 (orElse (member f ''remediation'')
                                    (JStr ''Investigate and take appropriate action.'')),
                    sf_timestamp = orElse (member f ''timestamp'') (JDate t),
                    sf_source = orElse (member f ''source'')
                                 (orElse (member f ''domain'') (JStr ''Unknown''))\<rparr>))"

fun normalizeFindings :: "nat \<Rightarrow> nat \<Rightarrow> json list \<Rightarrow> exn + securityFinding list" where
  "normalizeFindings t index [] = Inr []"
| "normalizeFindings t index (f # fs) =
     (case normalizeFinding t index f of
        Inl e \<Rightarrow> Inl e
      | Inr x \<Rightarrow>
          (case normalizeFindings t (Suc index) fs of
             Inl e \<Rightarrow> Inl e
           | Inr xs \<Rightarrow> Inr (x # xs)))"

text \<open>The response of the branch that finds the row already there.\<close>

definition existingResponse :: "report \<Rightarrow> response" where
  "existingResponse existingReport =
     JsonResponse 200
       (JObj [(''success'', JBool True),
              (''message'', JStr ''Report already exists''),
              (''data'', JObj [(''reportId'', JStr (rowId existingReport)),
                               (''executionId'', JStr (executionId existingReport)),
                               (''pdfUrl'', jsonString (pdfUrl existingReport)),
                               (''status'', JStr (status existingReport)),
                               (''createdAt'', JDate (createdAt existingReport))])])"

text \<open>The handler from the analysis on, for a string \<open>executionId\<close> without a row.\<close>

definition generateNew :: "env \<Rightarrow> genReq \<Rightarrow> string \<Rightarrow> json list \<Rightarrow> response io" where
  "generateNew env req e findings =
     bindIO (liftIO (analyzeFindings findings)) (\<lambda>analysis.
     bindIO now (\<lambda>t.
     bindIO (prisma_create e (''Security Report - '' @ e) (JArr findings)
               (analysisJson analysis) ''PROCESSING'' t) (\<lambda>report.
     bindIO (liftIO (normalizeFindings t 0 findings)) (\<lambda>normalized.
     bindIO (liftIO (generateReport env
               \<lparr>rd_executionId = e, rd_findings = normalized, rd_generatedAt = t,
                rd_counts = analysis\<rparr>)) (\<lambda>pdfBuffer.
     let fileName = ''report-'' @ e @ ''-'' @ decimal t @ ''.pdf'';
         filePath = path_join (reportsDir env) fileName
     in
     bindIO (fs_writeFileSync filePath pdfBuffer) (\<lambda>_.
     let baseUrl = protocol req @ ''://'' @ (case host req of None \<Rightarrow> ''undefined'' | Some h \<Rightarrow> h);
         downloadUrl = baseUrl @ ''/api/reports/download/'' @ fileName;
         sizeText = kilobytes (length pdfBuffer)
     in
     bindIO (prisma_update_completed (rowId report) downloadUrl filePath sizeText
               ''COMPLETED'' t) (\<lambda>updatedReport.
     retIO (JsonResponse 200
       (JObj [(''success'', JBool True),
              (''message'', JStr ''Report generated successfully''),
              (''data'', JObj
                 [(''reportId'', JStr (rowId updatedReport)),
                  (''executionId'', JStr (executionId updatedReport)),
                  (''metadata'', JObj
                     [(''generatedAt'', JDate t),
                      (''totalFindings'', jsonInt (totalFindings analysis)),
                      (''criticalCount'', jsonInt (criticalCount analysis)),
                      (''highCount'', jsonInt (highCount analysis)),
                      (''mediumCount'', jsonInt (mediumCount analysis)),
                      (''lowCount'', jsonInt (lowCount analysis))]),
                  (''pdf'', JObj
                     [(''fileName'', JStr fileName),
                      (''fileSize'', JStr sizeText),
                      (''downloadUrl'', JStr downloadUrl),
                      (''viewUrl'', JStr (baseUrl @ ''/api/reports/view/'' @ fileName)),
                      (''localPath'', JStr filePath)]),
                  (''summary'', analysisJson analysis),
                  (''databaseRecord'', JObj
                     [(''id'', JStr (rowId updatedReport)),
                      (''status'', JStr (status updatedReport)),
                      (''createdAt'', JDate (createdAt updatedReport)),
                      (''updatedAt'', JDate (updatedAt updatedReport))]),
                  (''timestamp'', JDate t)])])))))))))"

text \<open>The \<open>try\<close> block of the handler.\<close>

definition generateBody :: "env \<Rightarrow> genReq \<Rightarrow> response io" where
  "generateBody env req =
     (case map_of (body req) ''executionId'' of
        None \<Rightarrow> retIO (JsonResponse 400 (errorBody ''executionId is required''))
      | Some eid \<Rightarrow>
          if \<not> truthy eid
          then retIO (JsonResponse 400 (errorBody ''executionId is required''))
          else
            (case map_of (body req) ''findings'' of
               Some (JArr findings) \<Rightarrow>
                 bindIO (prisma_findUnique_executionId eid) (\<lambda>existingReport.
                   case existingReport of
                     Some r \<Rightarrow> retIO (existingResponse r)
                   | None \<Rightarrow>
                       (case eid of
                          JStr e \<Rightarrow> generateNew env req e findings
                        | _ \<Rightarrow> throwIO (PrismaError
                            ''Argument executionId: Invalid value provided. Expected String.'')))
             | _ \<Rightarrow> retIO (JsonResponse 400 (errorBody ''findings must be an array''))))"

text \<open>
  The inner \<open>try\<close> of the \<open>catch\<close> block: mark the rows of the execution as failed;
  an error of this update is logged and dropped.
\<close>

definition markFailed :: "genReq \<Rightarrow> exn \<Rightarrow> world \<Rightarrow> unit \<times> world" where
  "markFailed req error =
     tryCatch
       (case map_of (body req) ''executionId'' of
          None \<Rightarrow> retIO ()
        | Some eid \<Rightarrow>
            if truthy eid
            then bindIO now (\<lambda>t.
                 bindIO (prisma_updateMany_failed eid ''FAILED''
                           (JObj [(''error'', JStr (message error)), (''timestamp'', JDate t)]) t)
                   (\<lambda>_. retIO ()))
            else retIO ())
       (\<lambda>dbError w. ((), w))"

definition post_generate :: "env \<Rightarrow> genReq \<Rightarrow> world \<Rightarrow> response \<times> world" where
  "post_generate env req =
     tryCatch (generateBody env req)
       (\<lambda>error w.
          let w' = snd (markFailed req error w)
          in (JsonResponse 500
                (JObj [(''success'', JBool False),
                       (''error'', JStr ''Failed to generate report''),
                       (''message'', JStr (message error)),
                       (''timestamp'', JDate (clock w'))]), w'))"


subsection \<open>GET /:id and GET /execution/:executionId\<close>

definition get_by_id :: "string \<Rightarrow> world \<Rightarrow> response \<times> world" where
  "get_by_id i =
     tryCatch
       (bindIO (prisma_findUnique_id i) (\<lambda>found.
          case found of
            None \<Rightarrow> retIO (JsonResponse 404 (errorBody ''Report not found''))
          | Some r \<Rightarrow>
              retIO (JsonResponse 200 (JObj [(''success'', JBool True), (''data'', reportJson r)]))))
       (\<lambda>error w. (JsonResponse 500 (errorBody ''Failed to fetch report''), w))"

definition get_by_execution :: "string \<Rightarrow> world \<Rightarrow> response \<times> world" where
  "get_by_execution e =
     tryCatch
       (bindIO (prisma_findUnique_executionId (JStr e)) (\<lambda>found.
          case found of
            None \<Rightarrow> retIO (JsonResponse 404 (errorBody ''Report not found''))
          | Some r \<Rightarrow>
              retIO (JsonResponse 200 (JObj [(''success'', JBool True), (''data'', reportJson r)]))))
       (\<lambda>error w. (JsonResponse 500 (errorBody ''Failed to fetch report''), w))"


subsection \<open>GET / (list)\<close>

text \<open>\<open>if (status) where.status = status\<close>\<close>

definition whereStatus :: "string option \<Rightarrow> report \<Rightarrow> bool" where
  "whereStatus st r =
     (case st of
        None \<Rightarrow> True
      | Some s \<Rightarrow> if s \<noteq> [] then status r = s else True)"

text \<open>
  \<open>Math.ceil(total / Number(limit))\<close>: a zero limit makes the quotient infinite or
  NaN, which JSON prints as \<open>null\<close>.
\<close>

definition pagesJson :: "nat \<Rightarrow> nat \<Rightarrow> json" where
  "pagesJson total_rows lmt =
     (if lmt = 0 then JNull else jsonInt \<lceil>real total_rows / real lmt\<rceil>)"

text \<open>
  The defaults of the destructuring
  \<open>const { page = 1, limit = 20, status, sortBy = 'createdAt', sortOrder = 'desc' } = req.query\<close>.
\<close>

definition pageOf :: "listQuery \<Rightarrow> nat" where
  "pageOf q = (case page q of None \<Rightarrow> 1 | Some n \<Rightarrow> n)"

definition limitOf :: "listQuery \<Rightarrow> nat" where
  "limitOf q = (case limit q of None \<Rightarrow> 20 | Some n \<Rightarrow> n)"

definition sortByOf :: "listQuery \<Rightarrow> string" where
  "sortByOf q = (case sortBy q of None \<Rightarrow> ''createdAt'' | Some c \<Rightarrow> c)"

definition sortOrderOf :: "listQuery \<Rightarrow> string" where
  "sortOrderOf q = (case sortOrder q of None \<Rightarrow> ''desc'' | Some d \<Rightarrow> d)"

definition get_list :: "env \<Rightarrow> listQuery \<Rightarrow> world \<Rightarrow> response \<times> world" where
  "get_list env q =
     tryCatch
       (let pg = pageOf q;
            lmt = limitOf q;
            skip = (int pg - 1) * int lmt
        in
        bindIO (prisma_findMany (orderBy env (sortByOf q) (sortOrderOf q))
                  (whereStatus (statusParam q)) skip lmt)
          (\<lambda>rows.
        bindIO (prisma_count (whereStatus (statusParam q))) (\<lambda>total_rows.
        retIO (JsonResponse 200
          (JObj [(''success'', JBool True),
                 (''data'', JArr (map selectJson rows)),
                 (''pagination'', JObj
                    [(''page'', jsonNat pg),
                     (''limit'', jsonNat lmt),
                     (''total'', jsonNat total_rows),
                     (''pages'', pagesJson total_rows lmt)])])))))
       (\<lambda>error w. (JsonResponse 500 (errorBody ''Failed to list reports''), w))"


subsection \<open>GET /download/:filename and GET /view/:filename\<close>

text \<open>
  \<open>res.setHeader(name, value)\<close> throws when the value has a character that is not
  allowed in a header: a control character other than the tab, or a character above
  U+00FF. In UTF-8 the characters U+0080 to U+00FF are those with lead byte C2 or C3,
  so the bytes allowed are 09, 20 to 7E and 80 to C3.
\<close>

definition validHeaderByte :: "char \<Rightarrow> bool" where
  "validHeaderByte c =
     (let n = (of_char c :: nat) in n = 9 \<or> (32 \<le> n \<and> n \<le> 126) \<or> (128 \<le> n \<and> n \<le> 195))"

definition res_setHeader :: "string \<Rightarrow> string \<Rightarrow> exn + string \<times> string" where
  "res_setHeader name v =
     (if list_all validHeaderByte v then Inr (name, v)
      else Inl (TypeError (''Invalid character in header content ['' @ name @ '']'')))"

text \<open>
  The two handlers differ in the disposition and in the message of their \<open>catch\<close>
  block. The file is streamed after the headers are set.
\<close>

definition sendPdf ::
  "env \<Rightarrow> string \<Rightarrow> string \<Rightarrow> string \<Rightarrow> world \<Rightarrow> response \<times> world" where
  "sendPdf env disposition failure filename =
     tryCatch
       (\<lambda>w.
          let filePath = path_join (reportsDir env) filename
          in case map_of (files w) filePath of
               None \<Rightarrow> (Inr (JsonResponse 404 (errorBody ''Report file not found'')), w)
             | Some f \<Rightarrow>
                 (case res_setHeader ''Content-Type'' ''application/pdf'' of
                    Inl e \<Rightarrow> (Inl e, w)
                  | Inr h1 \<Rightarrow>
                      (case res_setHeader ''Content-Disposition''
                              (disposition @ ''; filename='' @ [CHR 0x22] @ filename @ [CHR 0x22]) of
                         Inl e \<Rightarrow> (Inl e, w)
                       | Inr h2 \<Rightarrow> (Inr (FileResponse [h1, h2] (content f)), w))))
       (\<lambda>error w. (JsonResponse 500 (errorBody failure), w))"

definition get_download :: "env \<Rightarrow> string \<Rightarrow> world \<Rightarrow> response \<times> world" where
  "get_download env filename =
     sendPdf env ''attachment'' ''Failed to download report'' filename"

definition get_view :: "env \<Rightarrow> string \<Rightarrow> world \<Rightarrow> response \<times> world" where
  "get_view env filename = sendPdf env ''inline'' ''Failed to view report'' filename"


subsection \<open>GET /list/files\<close>

definition fileJson :: "string \<times> fsFile \<Rightarrow> json" where
  "fileJson e =
     JObj [(''name'', JStr (fst e)),
           (''downloadUrl'', JStr (''/api/reports/download/'' @ fst e)),
           (''viewUrl'', JStr (''/api/reports/view/'' @ fst e)),
           (''size'', JStr (kilobytes (length (content (snd e))))),
           (''created'', JDate (birthtime (snd e)))]"

text \<open>The PDF files of the directory, newest first; the sort is stable.\<close>

definition pdfEntries :: "(string \<times> fsFile) list \<Rightarrow> (string \<times> fsFile) list" where
  "pdfEntries entries =
     sort_key (\<lambda>e. - int (birthtime (snd e))) (filter (\<lambda>e. endsWith (fst e) ''.pdf'') entries)"

definition get_list_files :: "env \<Rightarrow> world \<Rightarrow> response \<times> world" where
  "get_list_files env =
     tryCatch
       (bindIO (fs_readdirSync (reportsDir env)) (\<lambda>entries.
        retIO (JsonResponse 200
          (JObj [(''success'', JBool True),
                 (''count'', jsonNat (length (pdfEntries entries))),
                 (''reports'', JArr (map fileJson (pdfEntries entries)))]))))
       (\<lambda>error w. (JsonResponse 500 (errorBody ''Failed to list files''), w))"


subsection \<open>DELETE /:id\<close>

text \<open>\<open>if (report.pdfPath && fs.existsSync(report.pdfPath)) fs.unlinkSync(report.pdfPath)\<close>\<close>

definition unlinkIfExists :: "string option \<Rightarrow> unit io" where
  "unlinkIfExists pth w =
     (case pth of
        None \<Rightarrow> (Inr (), w)
      | Some p \<Rightarrow> if p \<noteq> [] \<and> fs_existsSync p w then fs_unlinkSync p w else (Inr (), w))"

definition delete_report :: "string \<Rightarrow> world \<Rightarrow> response \<times> world" where
  "delete_report i =
     tryCatch
       (bindIO (prisma_findUnique_id i) (\<lambda>found.
          case found of
            None \<Rightarrow> retIO (JsonResponse 404 (errorBody ''Report not found''))
          | Some r \<Rightarrow>
              bindIO (unlinkIfExists (pdfPath r)) (\<lambda>_.
              bindIO (prisma_delete i) (\<lambda>_.
              retIO (JsonResponse 200
                (JObj [(''success'', JBool True),
                       (''message'', JStr (''Report '' @ i @ '' deleted successfully'')),
                       (''deletedFile'', jsonString (pdfPath r))]))))))
       (\<lambda>error w. (JsonResponse 500 (errorBody ''Failed to delete report''), w))"


subsection \<open>GET /test/db\<close>

definition get_test_db :: "world \<Rightarrow> response \<times> world" where
  "get_test_db =
     tryCatch
       (bindIO prisma_queryRaw_select1 (\<lambda>_.
        bindIO now (\<lambda>t.
        bindIO (prisma_create (''test-'' @ decimal t) ''Database Test Report''
                  (JArr [JObj [(''test'', JStr ''data'')]]) (JObj [(''test'', JStr ''success'')])
                  ''COMPLETED'' t) (\<lambda>testReport.
        bindIO (prisma_count (\<lambda>r. True)) (\<lambda>cnt.
        bindIO (prisma_delete (rowId testReport)) (\<lambda>_.
        retIO (JsonResponse 200
          (JObj [(''success'', JBool True),
                 (''message'', JStr ''Database test successful''),
                 (''operations'', JObj
                    [(''connection'', JStr ''OK''), (''create'', JStr ''OK''),
                     (''count'', JStr ''OK''), (''delete'', JStr ''OK'')]),
                 (''count'', jsonInt (int cnt - 1)),
                 (''timestamp'', JDate t)]))))))))
       (\<lambda>error w.
          (JsonResponse 500
             (JObj [(''success'', JBool False),
                    (''error'', JStr ''Database test failed''),
                    (''message'', JStr (message error)),
                    (''timestamp'', JDate (clock w))]), w))"


subsection \<open>The router\<close>

datatype request =
    Health
  | Generate genReq
  | GetById string
  | GetByExecution string
  | ListReports listQuery
  | Download string
  | View string
  | ListFiles
  | DeleteReport string
  | TestDb

fun handle :: "env \<Rightarrow> request \<Rightarrow> world \<Rightarrow> response \<times> world" where
  "handle env Health = get_health"
| "handle env (Generate req) = post_generate env req"
| "handle env (GetById i) = get_by_id i"
| "handle env (GetByExecution e) = get_by_execution e"
| "handle env (ListReports q) = get_list env q"
| "handle env (Download filename) = get_download env filename"
| "handle env (View filename) = get_view env filename"
| "handle env ListFiles = get_list_files env"
| "handle env (DeleteReport i) = delete_report i"
| "handle env TestDb = get_test_db"


section \<open>Sample environment and worlds\<close>

definition sampleEnv :: env where
  "sampleEnv =
     \<lparr>reportsDir = ''/app/reports'',
      generateReport = (\<lambda>d. Inr [37, 80, 68, 70]),
      orderBy = (\<lambda>column direction rows. Some rows)\<rparr>"

definition emptyWorld :: world where
  "emptyWorld = \<lparr>reports = [], files = [], clock = 5, nextId = 1, faults = []\<rparr>"

definition sampleRequest :: genReq where
  "sampleRequest =
     \<lparr>body = [(''executionId'', JStr ''e1''),
              (''findings'', JArr [JObj [(''severity'', JStr ''high'')]])],
      protocol = ''http'', host = Some ''h''\<rparr>"


definition sampleReport :: report where
  "sampleReport =
     \<lparr>rowId = ''r1'', executionId = ''e1'', title = Some ''Security Report - e1'',
      inputFindings = JArr [], summary = JObj [], pdfUrl = Some ''http://h/x.pdf'',
      pdfPath = Some ''/app/reports/x.pdf'', cloudinaryFileId = None,
      fileSize = Some ''0.00 KB'', status = ''COMPLETED'', createdAt = 3, updatedAt = 4,
      generatedAt = 3\<rparr>"

definition worldWithReport :: world where
  "worldWithReport =
     \<lparr>reports = [sampleReport],
      files = [(''/app/reports/x.pdf'', \<lparr>content = [37, 80, 68, 70], birthtime = 4\<rparr>)],
      clock = 5, nextId = 2, faults = []\<rparr>"


section \<open>Predicates used in the statements\<close>

text \<open>What the severity of a finding has to look like for the analysis not to throw.\<close>

definition countable :: "json \<Rightarrow> bool" where
  "countable finding =
     (case finding of
        JNull \<Rightarrow> False
      | JObj kvs \<Rightarrow>
          (case map_of kvs ''severity'' of
             None \<Rightarrow> True
           | Some v \<Rightarrow> \<not> truthy v \<or> (case v of JStr _ \<Rightarrow> True | _ \<Rightarrow> False))
      | _ \<Rightarrow> True)"

text \<open>A finding whose uppercased severity is none of the four names.\<close>

definition unrecognized :: "json \<Rightarrow> bool" where
  "unrecognized finding =
     (case severityOf finding of
        Inl e \<Rightarrow> False
      | Inr s \<Rightarrow> s \<noteq> ''CRITICAL'' \<and> s \<noteq> ''HIGH'' \<and> s \<noteq> ''MEDIUM'' \<and> s \<noteq> ''LOW'')"

definition sumCounts :: "analysis \<Rightarrow> int" where
  "sumCounts a = criticalCount a + highCount a + mediumCount a + lowCount a"

text \<open>\<open>Array.isArray\<close> on a possibly undefined value.\<close>

definition isArray :: "json option \<Rightarrow> bool" where
  "isArray v = (case v of Some (JArr xs) \<Rightarrow> True | _ \<Rightarrow> False)"

text \<open>The next call into the database or the file system does not fail.\<close>

definition nextCallSucceeds :: "world \<Rightarrow> bool" where
  "nextCallSucceeds w = (case faults w of Some e # rest \<Rightarrow> False | _ \<Rightarrow> True)"

text \<open>
  Two worlds with the same rows as far as their \<open>executionId\<close>s go and the same file
  paths; and a world that has one more row, for \<open>e\<close>, and at most one more file.
\<close>

definition keeps :: "world \<Rightarrow> world \<Rightarrow> bool" where
  "keeps w w' \<longleftrightarrow>
     map executionId (reports w') = map executionId (reports w)
     \<and> map fst (files w') = map fst (files w)"

definition added :: "string \<Rightarrow> world \<Rightarrow> world \<Rightarrow> bool" where
  "added e w w' \<longleftrightarrow>
     map executionId (reports w') = map executionId (reports w) @ [e]
     \<and> (map fst (files w') = map fst (files w)
        \<or> (\<exists>p. map fst (files w') = map fst (files w) @ [p]))"


definition defaultQuery :: listQuery where
  "defaultQuery =
     \<lparr>page = None, limit = None, statusParam = None, sortBy = None, sortOrder = None\<rparr>"

text \<open>The world after the row \<open>r\<close> with key \<open>i\<close> and its file are gone.\<close>

definition afterDelete :: "string \<Rightarrow> report \<Rightarrow> world \<Rightarrow> world" where
  "afterDelete i r w =
     w\<lparr>reports := filter (\<lambda>x. rowId x \<noteq> i) (reports w),
       files := (case pdfPath r of
                   None \<Rightarrow> files w
                 | Some p \<Rightarrow> if p \<noteq> [] then filter (\<lambda>(q, g). q \<noteq> p) (files w) else files w)\<rparr>"


section \<open>Properties of the severity analysis\<close>

lemma countSeverity_total [simp]:
  "totalFindings (countSeverity c s) = totalFindings c"
  by (simp add: countSeverity_def)

lemma countSeverity_sum:
  "sumCounts (countSeverity c s) =
     sumCounts c + (if s \<noteq> ''CRITICAL'' \<and> s \<noteq> ''HIGH'' \<and> s \<noteq> ''MEDIUM'' \<and> s \<noteq> ''LOW'' then 0 else 1)"
  by (simp add: countSeverity_def sumCounts_def)

lemma countSeverity_medium:
  "mediumCount (countSeverity c s) = mediumCount c + (if s = ''MEDIUM'' then 1 else 0)"
  by (simp add: countSeverity_def)

lemma countSeverity_nonneg:
  "0 \<le> criticalCount c \<and> 0 \<le> highCount c \<and> 0 \<le> mediumCount c \<and> 0 \<le> lowCount c \<Longrightarrow>
   0 \<le> criticalCount (countSeverity c s) \<and> 0 \<le> highCount (countSeverity c s) \<and>
   0 \<le> mediumCount (countSeverity c s) \<and> 0 \<le> lowCount (countSeverity c s)"
  by (simp add: countSeverity_def)

lemma forEachFinding_total:
  "forEachFinding fs c = Inr a \<Longrightarrow> totalFindings a = totalFindings c"
  by (induction fs arbitrary: c) (auto split: sum.splits)

lemma forEachFinding_sum:
  "forEachFinding fs c = Inr a \<Longrightarrow>
   sumCounts a + int (length (filter unrecognized fs)) = sumCounts c + int (length fs)"
proof (induction fs arbitrary: c)
  case Nil
  then show ?case by simp
next
  case (Cons f fs)
  then obtain s where s: "severityOf f = Inr s"
    and rest: "forEachFinding fs (countSeverity c s) = Inr a"
    by (auto split: sum.splits)
  from Cons.IH [OF rest] s show ?case
    by (simp add: countSeverity_sum unrecognized_def)
qed

lemma forEachFinding_medium:
  "forEachFinding fs c = Inr a \<Longrightarrow>
   mediumCount a = mediumCount c + int (length (filter (\<lambda>f. severityOf f = Inr ''MEDIUM'') fs))"
proof (induction fs arbitrary: c)
  case Nil
  then show ?case by simp
next
  case (Cons f fs)
  then obtain s where s: "severityOf f = Inr s"
    and rest: "forEachFinding fs (countSeverity c s) = Inr a"
    by (auto split: sum.splits)
  from Cons.IH [OF rest] s show ?case
    by (simp add: countSeverity_medium)
qed

lemma forEachFinding_nonneg:
  "forEachFinding fs c = Inr a \<Longrightarrow>
   0 \<le> criticalCount c \<and> 0 \<le> highCount c \<and> 0 \<le> mediumCount c \<and> 0 \<le> lowCount c \<Longrightarrow>
   0 \<le> criticalCount a \<and> 0 \<le> highCount a \<and> 0 \<le> mediumCount a \<and> 0 \<le> lowCount a"
proof (induction fs arbitrary: c)
  case Nil
  then show ?case by simp
next
  case (Cons f fs)
  then obtain s where rest: "forEachFinding fs (countSeverity c s) = Inr a"
    by (auto split: sum.splits)
  show ?case
    by (rule Cons.IH [OF rest]) (rule countSeverity_nonneg [OF Cons.prems(2)])
qed

lemma severityOf_countable:
  "countable f \<Longrightarrow> \<exists>s. severityOf f = Inr s"
  by (cases f)
     (auto simp: countable_def severityOf_def split: option.splits json.splits)

lemma severityOf_not_countable:
  "\<not> countable f \<Longrightarrow> \<exists>m. severityOf f = Inl (TypeError m)"
  by (cases f)
     (auto simp: countable_def severityOf_def split: option.splits json.splits)

lemma forEachFinding_returns:
  "list_all countable fs \<Longrightarrow> \<exists>a. forEachFinding fs c = Inr a"
proof (induction fs arbitrary: c)
  case Nil
  then show ?case by simp
next
  case (Cons f fs)
  then obtain s where "severityOf f = Inr s"
    using severityOf_countable by auto
  with Cons show ?case by simp
qed

lemma forEachFinding_throws:
  "\<not> list_all countable fs \<Longrightarrow> \<exists>m. forEachFinding fs c = Inl (TypeError m)"
proof (induction fs arbitrary: c)
  case Nil
  then show ?case by simp
next
  case (Cons f fs)
  show ?case
  proof (cases "countable f")
    case True
    then obtain s where "severityOf f = Inr s"
      using severityOf_countable by auto
    with Cons True show ?thesis by simp
  next
    case False
    then obtain m where "severityOf f = Inl (TypeError m)"
      using severityOf_not_countable by auto
    then show ?thesis by simp
  qed
qed

lemma severityOf_missing:
  "getProp f ''severity'' = Inr None \<Longrightarrow> severityOf f = Inr ''MEDIUM''"
  by (simp add: severityOf_def toUpperCase_def toUpperChar_def)

lemma severityOf_falsy:
  "getProp f ''severity'' = Inr (Some v) \<Longrightarrow> \<not> truthy v \<Longrightarrow> severityOf f = Inr ''MEDIUM''"
  by (simp add: severityOf_def toUpperCase_def toUpperChar_def)

text \<open>
  Claim C1, as the code has it. Whenever \<open>analyzeFindings\<close> returns, the four severity
  counts together with the number of findings whose uppercased severity is none of the
  four names add up to \<open>totalFindings\<close>; the medium count is the number of findings
  whose severity reads \<open>MEDIUM\<close>, and a finding whose severity is missing or falsy is
  one of them. A severity that is present but unrecognized is counted in no bucket.
\<close>

theorem analyzeFindings_counts_sum:
  "analyzeFindings findings = Inr a \<Longrightarrow>
     criticalCount a + highCount a + mediumCount a + lowCount a
       + int (length (filter unrecognized findings)) = totalFindings a
     \<and> mediumCount a = int (length (filter (\<lambda>f. severityOf f = Inr ''MEDIUM'') findings))
     \<and> (\<forall>f v. getProp f ''severity'' = Inr None
               \<or> (getProp f ''severity'' = Inr (Some v) \<and> \<not> truthy v)
             \<longrightarrow> severityOf f = Inr ''MEDIUM'')"
proof (intro conjI allI impI)
  assume r: "analyzeFindings findings = Inr a"
  from forEachFinding_sum [OF r [unfolded analyzeFindings_def]]
       forEachFinding_total [OF r [unfolded analyzeFindings_def]]
  show "criticalCount a + highCount a + mediumCount a + lowCount a
          + int (length (filter unrecognized findings)) = totalFindings a"
    by (simp add: sumCounts_def)
  from forEachFinding_medium [OF r [unfolded analyzeFindings_def]]
  show "mediumCount a = int (length (filter (\<lambda>f. severityOf f = Inr ''MEDIUM'') findings))"
    by simp
next
  fix f v
  assume "getProp f ''severity'' = Inr None
            \<or> (getProp f ''severity'' = Inr (Some v) \<and> \<not> truthy v)"
  then show "severityOf f = Inr ''MEDIUM''"
    using severityOf_missing severityOf_falsy by blast
qed

theorem analyzeFindings_counts_sum_witness:
  "analyzeFindings
     [JObj [(''severity'', JStr ''high'')], JObj [(''title'', JStr ''t'')],
      JObj [(''severity'', JStr ''info'')]]
     = Inr \<lparr>totalFindings = 3, criticalCount = 0, highCount = 1, mediumCount = 1, lowCount = 0\<rparr>
   \<and> (0::int) + 1 + 1 + 0
       + int (length (filter unrecognized
           [JObj [(''severity'', JStr ''high'')], JObj [(''title'', JStr ''t'')],
            JObj [(''severity'', JStr ''info'')]])) = 3"
proof -
  have h: "analyzeFindings
     [JObj [(''severity'', JStr ''high'')], JObj [(''title'', JStr ''t'')],
      JObj [(''severity'', JStr ''info'')]]
     = Inr \<lparr>totalFindings = 3, criticalCount = 0, highCount = 1, mediumCount = 1, lowCount = 0\<rparr>"
    by (simp add: analyzeFindings_def severityOf_def countSeverity_def toUpperCase_def
          toUpperChar_def)
  from analyzeFindings_counts_sum [OF h] h show ?thesis by simp
qed

theorem analyzeFindings_unrecognized_counterexample:
  "analyzeFindings [JObj [(''severity'', JStr ''info'')]]
     = Inr \<lparr>totalFindings = 1, criticalCount = 0, highCount = 0, mediumCount = 0, lowCount = 0\<rparr>"
  by (simp add: analyzeFindings_def severityOf_def countSeverity_def toUpperCase_def
        toUpperChar_def)

text \<open>
  Claim C10, as the code has it. On an array all of whose elements are non-null and
  have a severity that is absent, falsy or a string, \<open>analyzeFindings\<close> returns an
  aggregate whose \<open>totalFindings\<close> is the length of the array, whose four counts are
  non-negative and whose counts add up to at most \<open>totalFindings\<close>. On every other
  array it throws a \<open>TypeError\<close> and returns nothing.
\<close>

theorem analyzeFindings_returns_bounds:
  "(list_all countable findings \<longrightarrow>
      (\<exists>a. analyzeFindings findings = Inr a
          \<and> totalFindings a = int (length findings)
          \<and> 0 \<le> criticalCount a \<and> 0 \<le> highCount a \<and> 0 \<le> mediumCount a \<and> 0 \<le> lowCount a
          \<and> criticalCount a + highCount a + mediumCount a + lowCount a \<le> totalFindings a))
   \<and> (\<not> list_all countable findings \<longrightarrow>
      (\<exists>m. analyzeFindings findings = Inl (TypeError m)))"
proof (intro conjI impI)
  assume ok: "list_all countable findings"
  then obtain a where r: "analyzeFindings findings = Inr a"
    unfolding analyzeFindings_def using forEachFinding_returns by blast
  have t: "totalFindings a = int (length findings)"
    using forEachFinding_total [OF r [unfolded analyzeFindings_def]] by simp
  have n: "0 \<le> criticalCount a \<and> 0 \<le> highCount a \<and> 0 \<le> mediumCount a \<and> 0 \<le> lowCount a"
    using forEachFinding_nonneg [OF r [unfolded analyzeFindings_def]] by simp
  have "sumCounts a + int (length (filter unrecognized findings)) = int (length findings)"
    using forEachFinding_sum [OF r [unfolded analyzeFindings_def]] by (simp add: sumCounts_def)
  then have s: "criticalCount a + highCount a + mediumCount a + lowCount a \<le> totalFindings a"
    using t by (simp add: sumCounts_def)
  from r t n s
  show "\<exists>a. analyzeFindings findings = Inr a
          \<and> totalFindings a = int (length findings)
          \<and> 0 \<le> criticalCount a \<and> 0 \<le> highCount a \<and> 0 \<le> mediumCount a \<and> 0 \<le> lowCount a
          \<and> criticalCount a + highCount a + mediumCount a + lowCount a \<le> totalFindings a"
    by blast
next
  assume "\<not> list_all countable findings"
  then show "\<exists>m. analyzeFindings findings = Inl (TypeError m)"
    unfolding analyzeFindings_def using forEachFinding_throws by blast
qed

theorem analyzeFindings_returns_bounds_witness:
  "list_all countable [JObj [(''severity'', JStr ''low'')], JStr ''x'', JObj [(''severity'', JNum 0)]]
   \<and> (\<exists>a. analyzeFindings
            [JObj [(''severity'', JStr ''low'')], JStr ''x'', JObj [(''severity'', JNum 0)]] = Inr a
          \<and> totalFindings a = 3
          \<and> criticalCount a + highCount a + mediumCount a + lowCount a \<le> totalFindings a)
   \<and> \<not> list_all countable [JObj [(''severity'', JNum 5)]]
   \<and> (\<exists>m. analyzeFindings [JObj [(''severity'', JNum 5)]] = Inl (TypeError m))"
proof -
  have c1: "list_all countable
      [JObj [(''severity'', JStr ''low'')], JStr ''x'', JObj [(''severity'', JNum 0)]]"
    by (simp add: countable_def)
  have c2: "\<not> list_all countable [JObj [(''severity'', JNum 5)]]"
    by (simp add: countable_def)
  from analyzeFindings_returns_bounds
         [of "[JObj [(''severity'', JStr ''low'')], JStr ''x'', JObj [(''severity'', JNum 0)]]"]
       analyzeFindings_returns_bounds [of "[JObj [(''severity'', JNum 5)]]"] c1 c2
  show ?thesis by auto
qed

theorem analyzeFindings_null_counterexample:
  "analyzeFindings [JNull] = Inl (TypeError ''Cannot read properties of null (reading severity)'')"
  by (simp add: analyzeFindings_def severityOf_def)

text \<open>
  Claim C7. \<open>getSeverityColor\<close> maps \<open>CRITICAL\<close>, \<open>HIGH\<close>, \<open>MEDIUM\<close> and \<open>LOW\<close> to their
  fixed colours and every other string to black.
\<close>

theorem getSeverityColor_mapping:
  "getSeverityColor ''CRITICAL'' = ''#dc2626''
   \<and> getSeverityColor ''HIGH'' = ''#f97316''
   \<and> getSeverityColor ''MEDIUM'' = ''#eab308''
   \<and> getSeverityColor ''LOW'' = ''#22c55e''
   \<and> (s \<noteq> ''CRITICAL'' \<and> s \<noteq> ''HIGH'' \<and> s \<noteq> ''MEDIUM'' \<and> s \<noteq> ''LOW''
        \<longrightarrow> getSeverityColor s = ''#000000'')"
  by (simp add: getSeverityColor_def)

theorem getSeverityColor_mapping_witness:
  "''critical'' \<noteq> ''CRITICAL'' \<and> ''critical'' \<noteq> ''HIGH'' \<and> ''critical'' \<noteq> ''MEDIUM''
   \<and> ''critical'' \<noteq> ''LOW'' \<and> getSeverityColor ''critical'' = ''#000000''"
  using getSeverityColor_mapping [of "''critical''"] by simp

text \<open>
  Claim C8. Whatever the count and the total, and however the floating-point operations
  round, the bar width is at least 50; so it is when the count is zero.
\<close>

theorem barWidth_at_least_50:
  "50 \<le> barWidth fl sev_count total_findings \<and> 50 \<le> barWidth fl 0 total_findings"
  by (simp add: barWidth_def)


section \<open>Properties of the routes\<close>

subsection \<open>Rules for the computations\<close>

lemma bindIO_retIO [simp]: "bindIO (retIO x) f = f x"
  by (rule ext) (simp add: bindIO_def retIO_def)

lemma bindIO_now [simp]: "bindIO now f w = f (clock w) w"
  by (simp add: bindIO_def now_def)

lemma bindIO_throwIO [simp]: "bindIO (throwIO e) f w = (Inl e, w)"
  by (simp add: bindIO_def throwIO_def)

lemma bindIO_liftIO [simp]:
  "bindIO (liftIO r) f w = (case r of Inl e \<Rightarrow> (Inl e, w) | Inr x \<Rightarrow> f x w)"
  by (simp add: bindIO_def liftIO_def split: sum.splits)

lemma tryCatch_retIO [simp]: "tryCatch (retIO x) h w = (x, w)"
  by (simp add: tryCatch_def retIO_def)

lemma tryCatch_throwIO [simp]: "tryCatch (throwIO e) h w = h e w"
  by (simp add: tryCatch_def throwIO_def)

lemma bindIO_cases:
  assumes "bindIO m f w = (r, w')"
  obtains (throws) e where "m w = (Inl e, w')" "r = Inl e"
        | (returns) x w1 where "m w = (Inr x, w1)" "f x w1 = (r, w')"
  using assms by (auto simp: bindIO_def split: prod.splits sum.splits)

lemma faults_unchanged: "faults w = fl \<Longrightarrow> w\<lparr>faults := fl\<rparr> = w"
  by (cases w) auto

lemma external_cases:
  assumes "external m w = (r, w')"
  obtains (fault) e fl where "r = Inl e" "w' = w\<lparr>faults := fl\<rparr>"
        | (run) fl where "m (w\<lparr>faults := fl\<rparr>) = (r, w')"
proof (cases "faults w")
  case Nil
  then have "m (w\<lparr>faults := []\<rparr>) = (r, w')"
    using assms by (simp add: external_def faults_unchanged)
  then show ?thesis by (rule run)
next
  case (Cons f rest)
  show ?thesis
  proof (cases f)
    case None
    with Cons assms have "m (w\<lparr>faults := rest\<rparr>) = (r, w')"
      by (simp add: external_def)
    then show ?thesis by (rule run)
  next
    case (Some e)
    with Cons assms have "r = Inl e" "w' = w\<lparr>faults := rest\<rparr>"
      by (simp_all add: external_def)
    then show ?thesis by (rule fault)
  qed
qed

lemma external_succeeds:
  "nextCallSucceeds w \<Longrightarrow> external m w = m (w\<lparr>faults := tl (faults w)\<rparr>)"
  by (auto simp: external_def nextCallSucceeds_def faults_unchanged
        split: list.splits option.splits)

lemma keeps_faults [simp]:
  "keeps (w\<lparr>faults := fl\<rparr>) w' = keeps w w'"
  "keeps w (w'\<lparr>faults := fl\<rparr>) = keeps w w'"
  by (simp_all add: keeps_def)

lemma keeps_refl [simp]: "keeps w w"
  by (simp add: keeps_def)

subsection \<open>What the database and file-system calls change\<close>

lemma findUnique_executionId_keeps:
  "prisma_findUnique_executionId v w = (r, w') \<Longrightarrow> keeps w w'"
  by (cases v) (auto simp: prisma_findUnique_executionId_def throwIO_def elim!: external_cases)

lemma findUnique_executionId_found:
  "prisma_findUnique_executionId v w = (Inr found, w') \<Longrightarrow>
     \<exists>s. v = JStr s \<and> found = find (\<lambda>r. executionId r = s) (reports w)"
  by (cases v) (auto simp: prisma_findUnique_executionId_def throwIO_def elim!: external_cases)

lemma create_effect:
  "prisma_create e t fj sj st gen w = (r, w') \<Longrightarrow>
     map fst (files w') = map fst (files w) \<and>
     (case r of Inl err \<Rightarrow> map executionId (reports w') = map executionId (reports w)
      | Inr row \<Rightarrow> map executionId (reports w') = map executionId (reports w) @ [e])"
  by (auto simp: prisma_create_def Let_def elim!: external_cases split: if_splits)

lemma update_completed_keeps:
  "prisma_update_completed i url pth fsize st upd w = (r, w') \<Longrightarrow> keeps w w'"
  by (auto simp: prisma_update_completed_def Let_def keeps_def elim!: external_cases
        split: option.splits if_splits)

lemma updateMany_failed_keeps:
  "prisma_updateMany_failed v st sj upd w = (r, w') \<Longrightarrow> keeps w w'"
  by (cases v) (auto simp: prisma_updateMany_failed_def throwIO_def keeps_def elim!: external_cases)

lemma writeFileSync_effect:
  "fs_writeFileSync p d w = (r, w') \<Longrightarrow>
     map executionId (reports w') = map executionId (reports w) \<and>
     (map fst (files w') = map fst (files w) \<or> map fst (files w') = map fst (files w) @ [p])"
  by (auto simp: fs_writeFileSync_def elim!: external_cases split: option.splits)

subsection \<open>POST /generate\<close>

lemma generateNew_effect:
  assumes "generateNew env req e fs w = (r, w')"
  shows "keeps w w' \<or> added e w w'"
  using assms unfolding generateNew_def
  by (auto simp: Let_def keeps_def added_def retIO_def liftIO_def split: sum.splits
        elim!: bindIO_cases dest!: create_effect writeFileSync_effect update_completed_keeps)

lemma markFailed_keeps: "markFailed req err w = (u, w') \<Longrightarrow> keeps w w'"
  unfolding markFailed_def tryCatch_def
  by (auto simp: retIO_def split: option.splits if_splits prod.splits sum.splits
        elim!: bindIO_cases dest!: updateMany_failed_keeps)

lemma keeps_trans: "keeps w w1 \<Longrightarrow> keeps w1 w2 \<Longrightarrow> keeps w w2"
  by (simp add: keeps_def)

lemma added_keeps: "added e w w1 \<Longrightarrow> keeps w1 w2 \<Longrightarrow> added e w w2"
  by (simp add: keeps_def added_def)

lemma keeps_added: "keeps w w1 \<Longrightarrow> added e w1 w2 \<Longrightarrow> added e w w2"
  by (simp add: keeps_def added_def)

lemma generateBody_effect:
  assumes "generateBody env req w = (r, w')"
  shows "keeps w w'
         \<or> (\<exists>e. map_of (body req) ''executionId'' = Some (JStr e)
                \<and> find (\<lambda>r. executionId r = e) (reports w) = None \<and> added e w w')"
proof (cases "map_of (body req) ''executionId''")
  case None
  with assms show ?thesis by (simp add: generateBody_def retIO_def)
next
  case (Some eid)
  show ?thesis
  proof (cases "truthy eid \<and> isArray (map_of (body req) ''findings'')")
    case False
    with Some assms show ?thesis
      by (auto simp: generateBody_def retIO_def isArray_def
            split: option.splits json.splits if_splits)
  next
    case True
    then obtain fs where fs: "map_of (body req) ''findings'' = Some (JArr fs)"
      by (auto simp: isArray_def split: option.splits json.splits)
    with Some True assms
    have b: "bindIO (prisma_findUnique_executionId eid) (\<lambda>existingReport.
               case existingReport of
                 Some r \<Rightarrow> retIO (existingResponse r)
               | None \<Rightarrow>
                   (case eid of
                      JStr e \<Rightarrow> generateNew env req e fs
                    | _ \<Rightarrow> throwIO (PrismaError
                        ''Argument executionId: Invalid value provided. Expected String.''))) w
             = (r, w')"
      by (simp add: generateBody_def)
    from b show ?thesis
    proof (cases rule: bindIO_cases)
      case (throws e)
      then show ?thesis using findUnique_executionId_keeps by blast
    next
      case (returns found w1)
      from returns(1) have k: "keeps w w1" by (rule findUnique_executionId_keeps)
      from findUnique_executionId_found [OF returns(1)]
      obtain s where s: "eid = JStr s" "found = find (\<lambda>r. executionId r = s) (reports w)"
        by blast
      show ?thesis
      proof (cases found)
        case None
        with returns(2) s have "generateNew env req s fs w1 = (r, w')" by simp
        from generateNew_effect [OF this] k s None Some show ?thesis
          using keeps_trans keeps_added by metis
      next
        case (Some row)
        with returns(2) have "w' = w1" by (simp add: retIO_def)
        with k show ?thesis by simp
      qed
    qed
  qed
qed

lemma post_generate_effect:
  assumes "post_generate env req w = (resp, w')"
  shows "keeps w w'
         \<or> (\<exists>e. map_of (body req) ''executionId'' = Some (JStr e)
                \<and> find (\<lambda>r. executionId r = e) (reports w) = None \<and> added e w w')"
proof (cases "generateBody env req w")
  case (Pair r w1)
  note eff = generateBody_effect [OF Pair]
  show ?thesis
  proof (cases r)
    case (Inr x)
    with Pair assms have "w' = w1" by (simp add: post_generate_def tryCatch_def)
    with eff show ?thesis by simp
  next
    case (Inl err)
    obtain u w2 where m: "markFailed req err w1 = (u, w2)"
      by (cases "markFailed req err w1")
    with Inl Pair assms have "w' = w2"
      by (auto simp: post_generate_def tryCatch_def Let_def)
    with markFailed_keeps [OF m] have "keeps w1 w'" by simp
    with eff show ?thesis
      using keeps_trans added_keeps by blast
  qed
qed

lemma find_executionId_None:
  "find (\<lambda>r. executionId r = e) rs = None \<longleftrightarrow> e \<notin> set (map executionId rs)"
  by (induction rs) auto

lemma find_executionId_Some:
  "find (\<lambda>r. executionId r = e) rs = Some r \<Longrightarrow> executionId r = e"
  by (induction rs) (auto split: if_splits)

lemma generate_existing:
  assumes "map_of (body req) ''executionId'' = Some (JStr e)" "e \<noteq> []"
    "map_of (body req) ''findings'' = Some (JArr fs)"
    "find (\<lambda>r. executionId r = e) (reports w) = Some r"
    "nextCallSucceeds w"
  shows "post_generate env req w = (existingResponse r, w\<lparr>faults := tl (faults w)\<rparr>)"
  using assms
  by (simp add: post_generate_def generateBody_def prisma_findUnique_executionId_def
        external_succeeds tryCatch_def bindIO_def retIO_def)

lemma generate_twice_bound:
  assumes same: "map_of (body req1) ''executionId'' = map_of (body req2) ''executionId''"
    and one: "post_generate env req1 w0 = (resp1, w1)"
    and two: "post_generate env req2 (w1\<lparr>clock := c, faults := fl\<rparr>) = (resp2, w2)"
  shows "length (reports w2) \<le> Suc (length (reports w0))
         \<and> length (files w2) \<le> Suc (length (files w0))"
proof -
  let ?w1 = "w1\<lparr>clock := c, faults := fl\<rparr>"
  have k1: "keeps w1 ?w1" by (simp add: keeps_def)
  from post_generate_effect [OF one]
  show ?thesis
  proof
    assume k: "keeps w0 w1"
    from post_generate_effect [OF two] k k1 show ?thesis
      by (auto simp: keeps_def added_def dest!: arg_cong [where f = length])
  next
    assume "\<exists>e. map_of (body req1) ''executionId'' = Some (JStr e)
               \<and> find (\<lambda>r. executionId r = e) (reports w0) = None \<and> added e w0 w1"
    then obtain e where e: "map_of (body req1) ''executionId'' = Some (JStr e)"
      and a: "added e w0 w1" by blast
    from a have "e \<in> set (map executionId (reports ?w1))"
      by (simp add: added_def)
    then have "find (\<lambda>r. executionId r = e) (reports ?w1) \<noteq> None"
      using find_executionId_None by blast
    with post_generate_effect [OF two] e same have "keeps ?w1 w2"
      by auto
    with a k1 show ?thesis
      by (auto simp: keeps_def added_def dest!: arg_cong [where f = length])
  qed
qed

text \<open>
  Claim C2. A generate request that passes validation and finds a row for its
  \<open>executionId\<close> (the lookup itself not failing) is answered with status 200,
  \<open>success: true\<close>, the message \<open>Report already exists\<close> and the id, \<open>executionId\<close>,
  \<open>pdfUrl\<close>, status and creation time of that row, and the world is left as it was:
  nothing is analysed, inserted, rendered or written, whatever the findings and the
  renderer are. And two generate calls with the same \<open>executionId\<close>, one after the
  other, whatever fails in between, leave at most one more row and at most one more
  file than there were.
\<close>

theorem generate_idempotent:
  "(map_of (body req) ''executionId'' = Some (JStr e) \<and> e \<noteq> []
      \<and> map_of (body req) ''findings'' = Some (JArr fs)
      \<and> find (\<lambda>r. executionId r = e) (reports w) = Some r \<and> nextCallSucceeds w
      \<longrightarrow> post_generate env req w
            = (JsonResponse 200
                 (JObj [(''success'', JBool True),
                        (''message'', JStr ''Report already exists''),
                        (''data'', JObj
                           [(''reportId'', JStr (rowId r)),
                            (''executionId'', JStr (executionId r)),
                            (''pdfUrl'', (case pdfUrl r of None \<Rightarrow> JNull | Some u \<Rightarrow> JStr u)),
                            (''status'', JStr (status r)),
                            (''createdAt'', JDate (createdAt r))])]),
               w\<lparr>faults := tl (faults w)\<rparr>)
          \<and> executionId r = e)
   \<and> (map_of (body req1) ''executionId'' = map_of (body req2) ''executionId''
      \<longrightarrow> length (reports (snd (post_generate env req2
                ((snd (post_generate env req1 w0))\<lparr>clock := c, faults := fl\<rparr>))))
            \<le> Suc (length (reports w0))
          \<and> length (files (snd (post_generate env req2
                ((snd (post_generate env req1 w0))\<lparr>clock := c, faults := fl\<rparr>))))
            \<le> Suc (length (files w0)))"
proof (intro conjI impI)
  assume a: "map_of (body req) ''executionId'' = Some (JStr e) \<and> e \<noteq> []
      \<and> map_of (body req) ''findings'' = Some (JArr fs)
      \<and> find (\<lambda>r. executionId r = e) (reports w) = Some r \<and> nextCallSucceeds w"
  then have "post_generate env req w = (existingResponse r, w\<lparr>faults := tl (faults w)\<rparr>)"
    using generate_existing by blast
  then show "post_generate env req w
            = (JsonResponse 200
                 (JObj [(''success'', JBool True),
                        (''message'', JStr ''Report already exists''),
                        (''data'', JObj
                           [(''reportId'', JStr (rowId r)),
                            (''executionId'', JStr (executionId r)),
                            (''pdfUrl'', (case pdfUrl r of None \<Rightarrow> JNull | Some u \<Rightarrow> JStr u)),
                            (''status'', JStr (status r)),
                            (''createdAt'', JDate (createdAt r))])]),
               w\<lparr>faults := tl (faults w)\<rparr>)"
    by (simp add: existingResponse_def jsonString_def)
  from a show "executionId r = e"
    by (auto dest: find_executionId_Some)
next
  assume same: "map_of (body req1) ''executionId'' = map_of (body req2) ''executionId''"
  obtain resp1 w1 where one: "post_generate env req1 w0 = (resp1, w1)"
    by (cases "post_generate env req1 w0")
  obtain resp2 w2 where two: "post_generate env req2 (w1\<lparr>clock := c, faults := fl\<rparr>) = (resp2, w2)"
    by (cases "post_generate env req2 (w1\<lparr>clock := c, faults := fl\<rparr>)")
  from generate_twice_bound [OF same one two] one two
  show "length (reports (snd (post_generate env req2
                ((snd (post_generate env req1 w0))\<lparr>clock := c, faults := fl\<rparr>))))
            \<le> Suc (length (reports w0))"
    and "length (files (snd (post_generate env req2
                ((snd (post_generate env req1 w0))\<lparr>clock := c, faults := fl\<rparr>))))
            \<le> Suc (length (files w0))"
    by simp_all
qed

theorem generate_idempotent_witness:
  "map_of (body sampleRequest) ''executionId'' = Some (JStr ''e1'') \<and> ''e1'' \<noteq> []
   \<and> map_of (body sampleRequest) ''findings'' = Some (JArr [JObj [(''severity'', JStr ''high'')]])
   \<and> find (\<lambda>r. executionId r = ''e1'') (reports worldWithReport) = Some sampleReport
   \<and> nextCallSucceeds worldWithReport
   \<and> post_generate sampleEnv sampleRequest worldWithReport
       = (JsonResponse 200
            (JObj [(''success'', JBool True),
                   (''message'', JStr ''Report already exists''),
                   (''data'', JObj
                      [(''reportId'', JStr ''r1''),
                       (''executionId'', JStr ''e1''),
                       (''pdfUrl'', JStr ''http://h/x.pdf''),
                       (''status'', JStr ''COMPLETED''),
                       (''createdAt'', JDate 3)])]),
          worldWithReport)
   \<and> length (reports (snd (post_generate sampleEnv sampleRequest
         ((snd (post_generate sampleEnv sampleRequest emptyWorld))\<lparr>clock := 9, faults := []\<rparr>))))
       \<le> Suc (length (reports emptyWorld))
   \<and> length (files (snd (post_generate sampleEnv sampleRequest
         ((snd (post_generate sampleEnv sampleRequest emptyWorld))\<lparr>clock := 9, faults := []\<rparr>))))
       \<le> Suc (length (files emptyWorld))"
proof -
  have p: "map_of (body sampleRequest) ''executionId'' = Some (JStr ''e1'') \<and> ''e1'' \<noteq> []
      \<and> map_of (body sampleRequest) ''findings'' = Some (JArr [JObj [(''severity'', JStr ''high'')]])
      \<and> find (\<lambda>r. executionId r = ''e1'') (reports worldWithReport) = Some sampleReport
      \<and> nextCallSucceeds worldWithReport"
    by (simp add: sampleRequest_def worldWithReport_def sampleReport_def nextCallSucceeds_def)
  have q: "map_of (body sampleRequest) ''executionId'' = map_of (body sampleRequest) ''executionId''"
    by simp
  have d: "worldWithReport\<lparr>faults := tl (faults worldWithReport)\<rparr> = worldWithReport"
    by (simp add: worldWithReport_def)
  note g = generate_idempotent [where req = sampleRequest and e = "''e1''"
      and fs = "[JObj [(''severity'', JStr ''high'')]]" and w = worldWithReport
      and r = sampleReport and env = sampleEnv and ?req1.0 = sampleRequest
      and ?req2.0 = sampleRequest and ?w0.0 = emptyWorld and c = 9 and fl = "[]"]
  from g p d have x: "post_generate sampleEnv sampleRequest worldWithReport
       = (JsonResponse 200
            (JObj [(''success'', JBool True),
                   (''message'', JStr ''Report already exists''),
                   (''data'', JObj
                      [(''reportId'', JStr ''r1''),
                       (''executionId'', JStr ''e1''),
                       (''pdfUrl'', JStr ''http://h/x.pdf''),
                       (''status'', JStr ''COMPLETED''),
                       (''createdAt'', JDate 3)])]),
          worldWithReport)"
    by (simp add: sampleReport_def)
  from g p q x show ?thesis by blast
qed

text \<open>
  Claim C3. A generate request whose body has no \<open>executionId\<close>, or whose \<open>findings\<close>
  is missing or not an array, is answered with status 400 and leaves the world as it
  was; no row is created.
\<close>

theorem generate_validation_400:
  "map_of (body req) ''executionId'' = None \<or> \<not> isArray (map_of (body req) ''findings'')
   \<Longrightarrow> (\<exists>m. post_generate env req w = (JsonResponse 400 (errorBody m), w))
       \<and> reports (snd (post_generate env req w)) = reports w"
  by (auto simp: post_generate_def generateBody_def isArray_def
        split: option.splits json.splits)

theorem generate_validation_400_witness:
  "\<not> isArray (map_of (body (sampleRequest\<lparr>body := [(''executionId'', JStr ''e1''),
                                                    (''findings'', JStr ''none'')]\<rparr>)) ''findings'')
   \<and> post_generate sampleEnv
        (sampleRequest\<lparr>body := [(''executionId'', JStr ''e1''), (''findings'', JStr ''none'')]\<rparr>)
        emptyWorld
      = (JsonResponse 400 (errorBody ''findings must be an array''), emptyWorld)
   \<and> map_of (body (sampleRequest\<lparr>body := [(''findings'', JArr [])]\<rparr>)) ''executionId'' = None
   \<and> post_generate sampleEnv (sampleRequest\<lparr>body := [(''findings'', JArr [])]\<rparr>) emptyWorld
      = (JsonResponse 400 (errorBody ''executionId is required''), emptyWorld)"
proof -
  have a: "\<not> isArray (map_of (body (sampleRequest\<lparr>body := [(''executionId'', JStr ''e1''),
                                                    (''findings'', JStr ''none'')]\<rparr>)) ''findings'')"
    by (simp add: isArray_def)
  have b: "map_of (body (sampleRequest\<lparr>body := [(''findings'', JArr [])]\<rparr>)) ''executionId'' = None"
    by simp
  from generate_validation_400
         [of "sampleRequest\<lparr>body := [(''executionId'', JStr ''e1''), (''findings'', JStr ''none'')]\<rparr>"
             sampleEnv emptyWorld]
       generate_validation_400
         [of "sampleRequest\<lparr>body := [(''findings'', JArr [])]\<rparr>" sampleEnv emptyWorld]
       a b
  show ?thesis
    by (auto simp: post_generate_def generateBody_def)
qed

text \<open>
  Claim C9. A generate request whose \<open>executionId\<close> is the empty string is rejected
  with status 400 and the message \<open>executionId is required\<close>, and the world is left as
  it was: the check is for a truthy value, not for presence.
\<close>

theorem generate_empty_executionId_400:
  "map_of (body req) ''executionId'' = Some (JStr '''')
   \<Longrightarrow> post_generate env req w = (JsonResponse 400 (errorBody ''executionId is required''), w)
       \<and> reports (snd (post_generate env req w)) = reports w"
  by (simp add: post_generate_def generateBody_def)

theorem generate_empty_executionId_400_witness:
  "map_of (body (sampleRequest\<lparr>body := [(''executionId'', JStr ''''), (''findings'', JArr [])]\<rparr>))
       ''executionId'' = Some (JStr '''')
   \<and> post_generate sampleEnv
        (sampleRequest\<lparr>body := [(''executionId'', JStr ''''), (''findings'', JArr [])]\<rparr>)
        emptyWorld
      = (JsonResponse 400 (errorBody ''executionId is required''), emptyWorld)"
proof -
  have a: "map_of (body (sampleRequest\<lparr>body := [(''executionId'', JStr ''''), (''findings'', JArr [])]\<rparr>))
       ''executionId'' = Some (JStr '''')"
    by simp
  from generate_empty_executionId_400 [OF a, of sampleEnv emptyWorld] a
  show ?thesis by blast
qed

subsection \<open>DELETE /:id\<close>


lemma external_nofault: "faults w = [] \<Longrightarrow> external m w = m w"
  by (simp add: external_def)

lemma entryOf_Some:
  "entryOf dir e = Some (n, f) \<Longrightarrow> fst e = dir @ ''/'' @ n \<and> snd e = f"
proof -
  assume a: "entryOf dir e = Some (n, f)"
  then have t: "take (length dir + 1) (fst e) = dir @ ''/''"
    and d: "drop (length dir + 1) (fst e) = n" and s: "snd e = f"
    by (auto simp: entryOf_def Let_def split: if_splits)
  have "fst e = take (length dir + 1) (fst e) @ drop (length dir + 1) (fst e)"
    by simp
  with t d have "fst e = (dir @ ''/'') @ n" by metis
  with s show ?thesis by simp
qed

lemma listed_is_file:
  assumes "(n, f) \<in> set (pdfEntries (List.map_filter (entryOf dir) fls))"
  shows "(dir @ ''/'' @ n, f) \<in> set fls"
proof -
  from assms have "(n, f) \<in> set (List.map_filter (entryOf dir) fls)"
    by (simp add: pdfEntries_def)
  then obtain e where e: "e \<in> set fls" "entryOf dir e = Some (n, f)"
    by (auto simp: List.map_filter_def)
  from entryOf_Some [OF e(2)] e(1) show ?thesis
    by (cases e) auto
qed

lemma delete_missing:
  assumes "find (\<lambda>r. rowId r = i) (reports w) = None" "nextCallSucceeds w"
  shows "delete_report i w
           = (JsonResponse 404 (errorBody ''Report not found''), w\<lparr>faults := tl (faults w)\<rparr>)"
  using assms
  by (simp add: delete_report_def prisma_findUnique_id_def external_succeeds tryCatch_def
        bindIO_def retIO_def)

lemma filter_absent:
  "map_of fls p = None \<Longrightarrow> filter (\<lambda>(q, g). q \<noteq> p) fls = fls"
  by (induction fls) (auto split: if_splits)

lemma unlinkIfExists_nofault:
  assumes "faults w = []"
  shows "unlinkIfExists pth w =
     (Inr (), w\<lparr>files := (case pth of
                   None \<Rightarrow> files w
                 | Some p \<Rightarrow> if p \<noteq> [] then filter (\<lambda>(q, g). q \<noteq> p) (files w) else files w)\<rparr>)"
  using assms
  by (cases w) (auto simp: unlinkIfExists_def fs_unlinkSync_def fs_existsSync_def external_nofault
        filter_absent split: option.splits)

lemma delete_existing:
  assumes "find (\<lambda>r. rowId r = i) (reports w) = Some r" "faults w = []"
  shows "delete_report i w
           = (JsonResponse 200
                (JObj [(''success'', JBool True),
                       (''message'', JStr (''Report '' @ i @ '' deleted successfully'')),
                       (''deletedFile'', jsonString (pdfPath r))]),
              afterDelete i r w)"
  using assms
  by (simp add: delete_report_def prisma_findUnique_id_def prisma_delete_def external_nofault
        unlinkIfExists_nofault tryCatch_def bindIO_def retIO_def afterDelete_def)

lemma find_filter_rowId: "find (\<lambda>r. rowId r = i) (filter (\<lambda>x. rowId x \<noteq> i) rs) = None"
  by (induction rs) auto

lemma get_by_id_after_delete:
  assumes "faults w = []"
  shows "get_by_id i (afterDelete i r w)
           = (JsonResponse 404 (errorBody ''Report not found''), afterDelete i r w)"
  using assms
  by (simp add: get_by_id_def prisma_findUnique_id_def external_nofault afterDelete_def
        find_filter_rowId tryCatch_def bindIO_def retIO_def)

lemma list_files_nofault:
  assumes "faults w = []"
  shows "get_list_files env w
     = (JsonResponse 200
          (JObj [(''success'', JBool True),
                 (''count'', jsonNat (length (pdfEntries (List.map_filter (entryOf (reportsDir env)) (files w))))),
                 (''reports'', JArr (map fileJson (pdfEntries (List.map_filter (entryOf (reportsDir env)) (files w)))))]),
        w)"
  using assms
  by (simp add: get_list_files_def fs_readdirSync_def external_nofault tryCatch_def bindIO_def
        retIO_def)

lemma deleted_not_listed:
  assumes "pdfPath r = Some (dir @ ''/'' @ n)"
  shows "n \<notin> fst ` set (pdfEntries (List.map_filter (entryOf dir) (files (afterDelete i r w))))"
proof
  assume "n \<in> fst ` set (pdfEntries (List.map_filter (entryOf dir) (files (afterDelete i r w))))"
  then obtain f where "(n, f) \<in> set (pdfEntries (List.map_filter (entryOf dir) (files (afterDelete i r w))))"
    by auto
  from listed_is_file [OF this] assms show False
    by (auto simp: afterDelete_def)
qed

subsection \<open>The shape of the responses\<close>

lemma generateNew_ok:
  "generateNew env req e fs w = (Inr resp, w') \<Longrightarrow> statusCode resp = 200"
  unfolding generateNew_def
  by (auto simp: Let_def retIO_def liftIO_def split: sum.splits elim!: bindIO_cases)

lemma generateBody_ok:
  assumes "generateBody env req w = (Inr resp, w')"
  shows "statusCode resp = 200
         \<or> resp = JsonResponse 400 (errorBody ''executionId is required'')
         \<or> resp = JsonResponse 400 (errorBody ''findings must be an array'')"
  using assms unfolding generateBody_def
  by (auto simp: retIO_def throwIO_def existingResponse_def
        split: option.splits json.splits if_splits elim!: bindIO_cases dest: generateNew_ok)

lemma post_generate_shape:
  assumes "post_generate env req w = (resp, w')"
  shows "statusCode resp = 200
         \<or> resp = JsonResponse 400 (errorBody ''executionId is required'')
         \<or> resp = JsonResponse 400 (errorBody ''findings must be an array'')
         \<or> (\<exists>d. resp = JsonResponse 500
                (JObj [(''success'', JBool False), (''error'', JStr ''Failed to generate report''),
                       (''message'', JStr d), (''timestamp'', JDate (clock w'))]))"
proof (cases "generateBody env req w")
  case (Pair r w1)
  show ?thesis
  proof (cases r)
    case (Inr x)
    with Pair assms have "resp = x" by (simp add: post_generate_def tryCatch_def)
    with generateBody_ok Pair Inr show ?thesis by blast
  next
    case (Inl err)
    with Pair assms show ?thesis
      by (auto simp: post_generate_def tryCatch_def Let_def)
  qed
qed

lemma get_by_id_shape:
  "get_by_id i w = (resp, w') \<Longrightarrow>
     statusCode resp = 200 \<or> resp = JsonResponse 404 (errorBody ''Report not found'')
     \<or> resp = JsonResponse 500 (errorBody ''Failed to fetch report'')"
  unfolding get_by_id_def tryCatch_def
  by (auto simp: retIO_def split: prod.splits sum.splits option.splits elim!: bindIO_cases)

lemma get_by_execution_shape:
  "get_by_execution e w = (resp, w') \<Longrightarrow>
     statusCode resp = 200 \<or> resp = JsonResponse 404 (errorBody ''Report not found'')
     \<or> resp = JsonResponse 500 (errorBody ''Failed to fetch report'')"
  unfolding get_by_execution_def tryCatch_def
  by (auto simp: retIO_def split: prod.splits sum.splits option.splits elim!: bindIO_cases)

lemma get_list_shape:
  "get_list env q w = (resp, w') \<Longrightarrow>
     statusCode resp = 200 \<or> resp = JsonResponse 500 (errorBody ''Failed to list reports'')"
  unfolding get_list_def tryCatch_def
  by (auto simp: retIO_def Let_def split: prod.splits sum.splits elim!: bindIO_cases)

lemma sendPdf_shape:
  "sendPdf env d failure f w = (resp, w') \<Longrightarrow>
     statusCode resp = 200 \<or> resp = JsonResponse 404 (errorBody ''Report file not found'')
     \<or> resp = JsonResponse 500 (errorBody failure)"
  unfolding sendPdf_def tryCatch_def
  by (auto simp: Let_def split: option.splits sum.splits prod.splits)

lemma get_list_files_shape:
  "get_list_files env w = (resp, w') \<Longrightarrow>
     statusCode resp = 200 \<or> resp = JsonResponse 500 (errorBody ''Failed to list files'')"
  unfolding get_list_files_def tryCatch_def
  by (auto simp: retIO_def split: prod.splits sum.splits elim!: bindIO_cases)

lemma delete_report_shape:
  "delete_report i w = (resp, w') \<Longrightarrow>
     statusCode resp = 200 \<or> resp = JsonResponse 404 (errorBody ''Report not found'')
     \<or> resp = JsonResponse 500 (errorBody ''Failed to delete report'')"
  unfolding delete_report_def tryCatch_def
  by (auto simp: retIO_def split: prod.splits sum.splits option.splits elim!: bindIO_cases)

lemma get_test_db_shape:
  "get_test_db w = (resp, w') \<Longrightarrow>
     statusCode resp = 200
     \<or> (\<exists>d. resp = JsonResponse 500
                (JObj [(''success'', JBool False), (''error'', JStr ''Database test failed''),
                       (''message'', JStr d), (''timestamp'', JDate (clock w'))]))"
  unfolding get_test_db_def tryCatch_def
  by (auto simp: retIO_def split: prod.splits sum.splits elim!: bindIO_cases)

lemma get_health_shape:
  "get_health w = (resp, w') \<Longrightarrow>
     statusCode resp = 200
     \<or> (\<exists>d. resp = JsonResponse 500
             (JObj [(''status'', JStr ''ERROR''), (''service'', JStr ''Reports API''),
                    (''database'', JStr (''Disconnected '' @ [CHR 0xE2, CHR 0x9D, CHR 0x8C])),
                    (''error'', JStr d), (''timestamp'', JDate (clock w'))]))"
  unfolding get_health_def tryCatch_def
  by (auto simp: retIO_def split: prod.splits sum.splits elim!: bindIO_cases)

subsection \<open>GET / (list)\<close>

lemma prisma_count_result:
  "prisma_count wh w = (Inr n, w') \<Longrightarrow> n = length (filter wh (reports w))"
  by (auto simp: prisma_count_def elim!: external_cases)

lemma get_list_response:
  assumes "get_list env q w = (resp, w')"
  shows "resp = JsonResponse 500 (errorBody ''Failed to list reports'')
         \<or> (\<exists>rows. resp = JsonResponse 200
               (JObj [(''success'', JBool True),
                      (''data'', JArr (map selectJson rows)),
                      (''pagination'', JObj
                         [(''page'', jsonNat (pageOf q)),
                          (''limit'', jsonNat (limitOf q)),
                          (''total'', jsonNat (length (filter (whereStatus (statusParam q)) (reports w)))),
                          (''pages'', pagesJson (length (filter (whereStatus (statusParam q)) (reports w)))
                                        (limitOf q))])]))"
proof -
  have keep: "\<And>w1 r. prisma_findMany (orderBy env (sortByOf q) (sortOrderOf q))
                  (whereStatus (statusParam q)) ((int (pageOf q) - 1) * int (limitOf q)) (limitOf q) w = (r, w1)
               \<Longrightarrow> reports w1 = reports w"
    by (auto simp: prisma_findMany_def throwIO_def split: if_splits option.splits
          elim!: external_cases)
  from assms show ?thesis
    unfolding get_list_def tryCatch_def
    by (auto simp: retIO_def Let_def split: prod.splits sum.splits elim!: bindIO_cases
          dest!: prisma_count_result keep)
qed

lemma ceiling_one: "0 < t \<Longrightarrow> t \<le> 20 \<Longrightarrow> \<lceil>real t / 20\<rceil> = 1"
  by (rule ceiling_unique) auto

lemma get_list_first_page:
  assumes lim: "limit q = None \<or> limit q = Some 20"
    and pg: "page q = None \<or> page q = Some 1"
    and st: "statusParam q = None"
    and nf: "faults w = []"
    and ord: "orderBy env (sortByOf q) (sortOrderOf q) (reports w) = Some rows"
    and perm: "mset rows = mset (reports w)"
    and few: "length (reports w) \<le> 20"
  shows "get_list env q w
     = (JsonResponse 200
         (JObj [(''success'', JBool True),
                (''data'', JArr (map selectJson rows)),
                (''pagination'', JObj
                   [(''page'', JNum 1), (''limit'', JNum 20),
                    (''total'', jsonNat (length (reports w))),
                    (''pages'', if reports w = [] then JNum 0 else JNum 1)])]), w)"
proof -
  have l: "limitOf q = 20" using lim by (auto simp: limitOf_def)
  have p: "pageOf q = 1" using pg by (auto simp: pageOf_def)
  have len: "length rows = length (reports w)"
    using perm by (metis size_mset)
  have pages: "pagesJson (length (reports w)) 20 = (if reports w = [] then JNum 0 else JNum 1)"
    using few by (auto simp: pagesJson_def jsonInt_def ceiling_one)
  show ?thesis
    using l p st nf ord len few pages
    by (simp add: get_list_def prisma_findMany_def prisma_count_def external_nofault
          whereStatus_def tryCatch_def bindIO_def retIO_def jsonNat_def)
qed

subsection \<open>Deleting, error responses, listing\<close>

lemma filter_removes: "map_of (filter (\<lambda>(q, g). q \<noteq> p) fls) p = None"
  by (induction fls) auto

text \<open>
  Claim C6. Deleting an id that has no row is answered with 404 and changes neither
  the table nor the files. Deleting an id that has a row, when no call into the
  database or the file system fails, is answered with success, removes the file at the
  recorded path (if there is one) and the row; a get-by-id that follows is answered
  with 404, and a file listing that follows does not list the name of the deleted file.
\<close>

theorem delete_report_removes:
  "(find (\<lambda>x. rowId x = i) (reports w) = None \<and> nextCallSucceeds w
      \<longrightarrow> delete_report i w
            = (JsonResponse 404 (errorBody ''Report not found''), w\<lparr>faults := tl (faults w)\<rparr>))
   \<and> (find (\<lambda>x. rowId x = i) (reports w) = Some r \<and> faults w = []
      \<longrightarrow> delete_report i w
            = (JsonResponse 200
                 (JObj [(''success'', JBool True),
                        (''message'', JStr (''Report '' @ i @ '' deleted successfully'')),
                        (''deletedFile'', jsonString (pdfPath r))]),
               afterDelete i r w)
          \<and> find (\<lambda>x. rowId x = i) (reports (afterDelete i r w)) = None
          \<and> (\<forall>p. pdfPath r = Some p \<and> p \<noteq> [] \<longrightarrow> \<not> fs_existsSync p (afterDelete i r w))
          \<and> get_by_id i (afterDelete i r w)
              = (JsonResponse 404 (errorBody ''Report not found''), afterDelete i r w)
          \<and> (\<exists>es. get_list_files env (afterDelete i r w)
                     = (JsonResponse 200
                          (JObj [(''success'', JBool True),
                                 (''count'', jsonNat (length es)),
                                 (''reports'', JArr (map fileJson es))]),
                        afterDelete i r w)
                  \<and> (\<forall>n. pdfPath r = Some (reportsDir env @ ''/'' @ n) \<longrightarrow> n \<notin> fst ` set es)))"
proof (intro conjI impI)
  assume "find (\<lambda>x. rowId x = i) (reports w) = None \<and> nextCallSucceeds w"
  then show "delete_report i w
      = (JsonResponse 404 (errorBody ''Report not found''), w\<lparr>faults := tl (faults w)\<rparr>)"
    using delete_missing by blast
next
  assume a: "find (\<lambda>x. rowId x = i) (reports w) = Some r \<and> faults w = []"
  then have nf: "faults (afterDelete i r w) = []"
    by (simp add: afterDelete_def)
  from a show "delete_report i w
      = (JsonResponse 200
           (JObj [(''success'', JBool True),
                  (''message'', JStr (''Report '' @ i @ '' deleted successfully'')),
                  (''deletedFile'', jsonString (pdfPath r))]),
         afterDelete i r w)"
    using delete_existing by blast
  show "find (\<lambda>x. rowId x = i) (reports (afterDelete i r w)) = None"
    by (simp add: afterDelete_def find_filter_rowId)
  show "\<forall>p. pdfPath r = Some p \<and> p \<noteq> [] \<longrightarrow> \<not> fs_existsSync p (afterDelete i r w)"
    by (simp add: afterDelete_def fs_existsSync_def filter_removes)
  from a show "get_by_id i (afterDelete i r w)
      = (JsonResponse 404 (errorBody ''Report not found''), afterDelete i r w)"
    using get_by_id_after_delete by blast
  let ?es = "pdfEntries (List.map_filter (entryOf (reportsDir env)) (files (afterDelete i r w)))"
  have "get_list_files env (afterDelete i r w)
          = (JsonResponse 200
               (JObj [(''success'', JBool True),
                      (''count'', jsonNat (length ?es)),
                      (''reports'', JArr (map fileJson ?es))]),
             afterDelete i r w)"
    using list_files_nofault [OF nf] .
  moreover have "\<forall>n. pdfPath r = Some (reportsDir env @ ''/'' @ n) \<longrightarrow> n \<notin> fst ` set ?es"
    using deleted_not_listed by blast
  ultimately
  show "\<exists>es. get_list_files env (afterDelete i r w)
                     = (JsonResponse 200
                          (JObj [(''success'', JBool True),
                                 (''count'', jsonNat (length es)),
                                 (''reports'', JArr (map fileJson es))]),
                        afterDelete i r w)
                  \<and> (\<forall>n. pdfPath r = Some (reportsDir env @ ''/'' @ n) \<longrightarrow> n \<notin> fst ` set es)"
    by blast
qed

theorem delete_report_removes_witness:
  "find (\<lambda>x. rowId x = ''r9'') (reports worldWithReport) = None \<and> nextCallSucceeds worldWithReport
   \<and> delete_report ''r9'' worldWithReport
       = (JsonResponse 404 (errorBody ''Report not found''), worldWithReport)
   \<and> find (\<lambda>x. rowId x = ''r1'') (reports worldWithReport) = Some sampleReport
   \<and> faults worldWithReport = []
   \<and> afterDelete ''r1'' sampleReport worldWithReport
       = \<lparr>reports = [], files = [], clock = 5, nextId = 2, faults = []\<rparr>
   \<and> delete_report ''r1'' worldWithReport
       = (JsonResponse 200
            (JObj [(''success'', JBool True),
                   (''message'', JStr ''Report r1 deleted successfully''),
                   (''deletedFile'', JStr ''/app/reports/x.pdf'')]),
          \<lparr>reports = [], files = [], clock = 5, nextId = 2, faults = []\<rparr>)
   \<and> get_by_id ''r1'' \<lparr>reports = [], files = [], clock = 5, nextId = 2, faults = []\<rparr>
       = (JsonResponse 404 (errorBody ''Report not found''),
          \<lparr>reports = [], files = [], clock = 5, nextId = 2, faults = []\<rparr>)"
proof -
  have a: "find (\<lambda>x. rowId x = ''r9'') (reports worldWithReport) = None
           \<and> nextCallSucceeds worldWithReport"
    by (simp add: worldWithReport_def sampleReport_def nextCallSucceeds_def)
  have b: "find (\<lambda>x. rowId x = ''r1'') (reports worldWithReport) = Some sampleReport
           \<and> faults worldWithReport = []"
    by (simp add: worldWithReport_def sampleReport_def)
  have c: "afterDelete ''r1'' sampleReport worldWithReport
       = \<lparr>reports = [], files = [], clock = 5, nextId = 2, faults = []\<rparr>"
    by (simp add: afterDelete_def worldWithReport_def sampleReport_def)
  have d: "worldWithReport\<lparr>faults := tl (faults worldWithReport)\<rparr> = worldWithReport"
    by (simp add: worldWithReport_def)
  note m = delete_report_removes [where i = "''r9''" and w = worldWithReport]
  note e = delete_report_removes [where i = "''r1''" and w = worldWithReport
      and r = sampleReport and env = sampleEnv]
  from m a d have 1: "delete_report ''r9'' worldWithReport
       = (JsonResponse 404 (errorBody ''Report not found''), worldWithReport)"
    by simp
  from e b c have 2: "delete_report ''r1'' worldWithReport
       = (JsonResponse 200
            (JObj [(''success'', JBool True),
                   (''message'', JStr ''Report r1 deleted successfully''),
                   (''deletedFile'', JStr ''/app/reports/x.pdf'')]),
          \<lparr>reports = [], files = [], clock = 5, nextId = 2, faults = []\<rparr>)"
    by (simp add: sampleReport_def jsonString_def)
  from e b c have 3: "get_by_id ''r1'' \<lparr>reports = [], files = [], clock = 5, nextId = 2, faults = []\<rparr>
       = (JsonResponse 404 (errorBody ''Report not found''),
          \<lparr>reports = [], files = [], clock = 5, nextId = 2, faults = []\<rparr>)"
    by simp
  from a b c 1 2 3 show ?thesis by blast
qed

text \<open>
  Claim C5, as the code has it. Every response of a report route with a status of 400 or
  more is a JSON object with a string \<open>error\<close> field, and it is one of these, route
  by route. The health route answers 500 with \<open>status\<close>, \<open>service\<close>, \<open>database\<close>,
  \<open>error\<close> and \<open>timestamp\<close>, without \<open>success\<close> or \<open>message\<close>. Generate answers
  400 with \<open>{success: false, error}\<close> and 500 with \<open>{success: false, error, message,
  timestamp}\<close>; the database test answers 500 in that four-field form. Every other error
  response, 404 or 500, is \<open>{success: false, error}\<close> and nothing more.
\<close>

theorem error_responses:
  "handle env rq w = (resp, w') \<Longrightarrow> 400 \<le> statusCode resp \<Longrightarrow>
     (case rq of
        Health \<Rightarrow>
          (\<exists>d. resp = JsonResponse 500
             (JObj [(''status'', JStr ''ERROR''), (''service'', JStr ''Reports API''),
                    (''database'', JStr (''Disconnected '' @ [CHR 0xE2, CHR 0x9D, CHR 0x8C])),
                    (''error'', JStr d), (''timestamp'', JDate (clock w'))]))
      | Generate req \<Rightarrow>
          resp = JsonResponse 400
             (JObj [(''success'', JBool False), (''error'', JStr ''executionId is required'')])
          \<or> resp = JsonResponse 400
             (JObj [(''success'', JBool False), (''error'', JStr ''findings must be an array'')])
          \<or> (\<exists>d. resp = JsonResponse 500
             (JObj [(''success'', JBool False), (''error'', JStr ''Failed to generate report''),
                    (''message'', JStr d), (''timestamp'', JDate (clock w'))]))
      | GetById i \<Rightarrow>
          resp = JsonResponse 404
             (JObj [(''success'', JBool False), (''error'', JStr ''Report not found'')])
          \<or> resp = JsonResponse 500
             (JObj [(''success'', JBool False), (''error'', JStr ''Failed to fetch report'')])
      | GetByExecution e \<Rightarrow>
          resp = JsonResponse 404
             (JObj [(''success'', JBool False), (''error'', JStr ''Report not found'')])
          \<or> resp = JsonResponse 500
             (JObj [(''success'', JBool False), (''error'', JStr ''Failed to fetch report'')])
      | ListReports q \<Rightarrow>
          resp = JsonResponse 500
             (JObj [(''success'', JBool False), (''error'', JStr ''Failed to list reports'')])
      | Download filename \<Rightarrow>
          resp = JsonResponse 404
             (JObj [(''success'', JBool False), (''error'', JStr ''Report file not found'')])
          \<or> resp = JsonResponse 500
             (JObj [(''success'', JBool False), (''error'', JStr ''Failed to download report'')])
      | View filename \<Rightarrow>
          resp = JsonResponse 404
             (JObj [(''success'', JBool False), (''error'', JStr ''Report file not found'')])
          \<or> resp = JsonResponse 500
             (JObj [(''success'', JBool False), (''error'', JStr ''Failed to view report'')])
      | ListFiles \<Rightarrow>
          resp = JsonResponse 500
             (JObj [(''success'', JBool False), (''error'', JStr ''Failed to list files'')])
      | DeleteReport i \<Rightarrow>
          resp = JsonResponse 404
             (JObj [(''success'', JBool False), (''error'', JStr ''Report not found'')])
          \<or> resp = JsonResponse 500
             (JObj [(''success'', JBool False), (''error'', JStr ''Failed to delete report'')])
      | TestDb \<Rightarrow>
          (\<exists>d. resp = JsonResponse 500
             (JObj [(''success'', JBool False), (''error'', JStr ''Database test failed''),
                    (''message'', JStr d), (''timestamp'', JDate (clock w'))])))"
proof (cases rq)
  case Health
  assume "handle env rq w = (resp, w')" "400 \<le> statusCode resp"
  with Health get_health_shape [of w resp w'] show ?thesis by auto
next
  case (Generate req)
  assume "handle env rq w = (resp, w')" "400 \<le> statusCode resp"
  with Generate post_generate_shape [of env req w resp w'] show ?thesis
    by (auto simp: errorBody_def)
next
  case (GetById i)
  assume "handle env rq w = (resp, w')" "400 \<le> statusCode resp"
  with GetById get_by_id_shape [of i w resp w'] show ?thesis
    by (auto simp: errorBody_def)
next
  case (GetByExecution e)
  assume "handle env rq w = (resp, w')" "400 \<le> statusCode resp"
  with GetByExecution get_by_execution_shape [of e w resp w'] show ?thesis
    by (auto simp: errorBody_def)
next
  case (ListReports q)
  assume "handle env rq w = (resp, w')" "400 \<le> statusCode resp"
  with ListReports get_list_shape [of env q w resp w'] show ?thesis
    by (auto simp: errorBody_def)
next
  case (Download f)
  assume "handle env rq w = (resp, w')" "400 \<le> statusCode resp"
  with Download
    sendPdf_shape [of env "''attachment''" "''Failed to download report''" f w resp w']
  show ?thesis
    by (auto simp: errorBody_def get_download_def)
next
  case (View f)
  assume "handle env rq w = (resp, w')" "400 \<le> statusCode resp"
  with View sendPdf_shape [of env "''inline''" "''Failed to view report''" f w resp w']
  show ?thesis
    by (auto simp: errorBody_def get_view_def)
next
  case ListFiles
  assume "handle env rq w = (resp, w')" "400 \<le> statusCode resp"
  with ListFiles get_list_files_shape [of env w resp w'] show ?thesis
    by (auto simp: errorBody_def)
next
  case (DeleteReport i)
  assume "handle env rq w = (resp, w')" "400 \<le> statusCode resp"
  with DeleteReport delete_report_shape [of i w resp w'] show ?thesis
    by (auto simp: errorBody_def)
next
  case TestDb
  assume "handle env rq w = (resp, w')" "400 \<le> statusCode resp"
  with TestDb get_test_db_shape [of w resp w'] show ?thesis by auto
qed

theorem error_responses_witness:
  "handle sampleEnv
     (Generate (sampleRequest\<lparr>body := [(''executionId'', JStr ''x''), (''findings'', JArr [JNull])]\<rparr>))
     emptyWorld
     = (JsonResponse 500
          (JObj [(''success'', JBool False), (''error'', JStr ''Failed to generate report''),
                 (''message'', JStr ''Cannot read properties of null (reading severity)''),
                 (''timestamp'', JDate 5)]),
        emptyWorld)
   \<and> (400::nat) \<le> 500
   \<and> (\<exists>d. JsonResponse 500
               (JObj [(''success'', JBool False), (''error'', JStr ''Failed to generate report''),
                      (''message'', JStr ''Cannot read properties of null (reading severity)''),
                      (''timestamp'', JDate 5)])
             = JsonResponse 500
               (JObj [(''success'', JBool False), (''error'', JStr ''Failed to generate report''),
                      (''message'', JStr d), (''timestamp'', JDate (clock emptyWorld))]))
   \<and> handle sampleEnv (Download [CHR 0x0A])
        \<lparr>reports = [],
         files = [(''/app/reports/'' @ [CHR 0x0A], \<lparr>content = [37, 80, 68, 70], birthtime = 1\<rparr>)],
         clock = 5, nextId = 1, faults = []\<rparr>
     = (JsonResponse 500
          (JObj [(''success'', JBool False), (''error'', JStr ''Failed to download report'')]),
        \<lparr>reports = [],
         files = [(''/app/reports/'' @ [CHR 0x0A], \<lparr>content = [37, 80, 68, 70], birthtime = 1\<rparr>)],
         clock = 5, nextId = 1, faults = []\<rparr>)"
proof -
  have h: "handle sampleEnv
     (Generate (sampleRequest\<lparr>body := [(''executionId'', JStr ''x''), (''findings'', JArr [JNull])]\<rparr>))
     emptyWorld
     = (JsonResponse 500
          (JObj [(''success'', JBool False), (''error'', JStr ''Failed to generate report''),
                 (''message'', JStr ''Cannot read properties of null (reading severity)''),
                 (''timestamp'', JDate 5)]),
        emptyWorld)"
    by code_simp
  have s: "400 \<le> statusCode (JsonResponse 500
          (JObj [(''success'', JBool False), (''error'', JStr ''Failed to generate report''),
                 (''message'', JStr ''Cannot read properties of null (reading severity)''),
                 (''timestamp'', JDate 5)]))"
    by simp
  have g: "handle sampleEnv (Download [CHR 0x0A])
        \<lparr>reports = [],
         files = [(''/app/reports/'' @ [CHR 0x0A], \<lparr>content = [37, 80, 68, 70], birthtime = 1\<rparr>)],
         clock = 5, nextId = 1, faults = []\<rparr>
     = (JsonResponse 500
          (JObj [(''success'', JBool False), (''error'', JStr ''Failed to download report'')]),
        \<lparr>reports = [],
         files = [(''/app/reports/'' @ [CHR 0x0A], \<lparr>content = [37, 80, 68, 70], birthtime = 1\<rparr>)],
         clock = 5, nextId = 1, faults = []\<rparr>)"
    by code_simp
  from error_responses [OF h s] have
    "\<exists>d. JsonResponse 500
               (JObj [(''success'', JBool False), (''error'', JStr ''Failed to generate report''),
                      (''message'', JStr ''Cannot read properties of null (reading severity)''),
                      (''timestamp'', JDate 5)])
             = JsonResponse 500
               (JObj [(''success'', JBool False), (''error'', JStr ''Failed to generate report''),
                      (''message'', JStr d), (''timestamp'', JDate (clock emptyWorld))])"
    by simp
  with h g show ?thesis by simp
qed

theorem error_responses_counterexample:
  "handle sampleEnv (Generate (sampleRequest\<lparr>body := []\<rparr>)) emptyWorld
     = (JsonResponse 400
          (JObj [(''success'', JBool False), (''error'', JStr ''executionId is required'')]),
        emptyWorld)"
  by (simp add: post_generate_def generateBody_def errorBody_def)

text \<open>
  Claim C4, as the code has it. A list request that is answered with success carries
  the pagination object \<open>{page, limit, total, pages}\<close> with \<open>page\<close> defaulting to 1,
  \<open>limit\<close> to 20, \<open>total\<close> the number of rows that pass the status filter and
  \<open>pages = ceil(total / limit)\<close> (\<open>null\<close> for a limit of 0). In particular, listing with
  limit 20 and page 1 (given or by default) and no status filter, when at most 20 rows
  exist and nothing fails, returns all rows in the order the database gives them, with
  \<open>pages\<close> 1 when there is a row and 0 when there is none.
\<close>

theorem list_pagination:
  "(statusCode (fst (get_list env q w)) = 200
      \<longrightarrow> (\<exists>rows. fst (get_list env q w) = JsonResponse 200
               (JObj [(''success'', JBool True),
                      (''data'', JArr (map selectJson rows)),
                      (''pagination'', JObj
                         [(''page'', jsonNat (pageOf q)),
                          (''limit'', jsonNat (limitOf q)),
                          (''total'', jsonNat (length (filter (whereStatus (statusParam q)) (reports w)))),
                          (''pages'',
                             if limitOf q = 0 then JNull
                             else jsonInt \<lceil>real (length (filter (whereStatus (statusParam q)) (reports w)))
                                            / real (limitOf q)\<rceil>)])])))
   \<and> ((limit q = None \<or> limit q = Some 20) \<and> (page q = None \<or> page q = Some 1)
        \<and> statusParam q = None \<and> faults w = []
        \<and> orderBy env (sortByOf q) (sortOrderOf q) (reports w) = Some rows
        \<and> mset rows = mset (reports w) \<and> length (reports w) \<le> 20
      \<longrightarrow> get_list env q w
            = (JsonResponse 200
                 (JObj [(''success'', JBool True),
                        (''data'', JArr (map selectJson rows)),
                        (''pagination'', JObj
                           [(''page'', JNum 1), (''limit'', JNum 20),
                            (''total'', jsonNat (length (reports w))),
                            (''pages'', if reports w = [] then JNum 0 else JNum 1)])]), w))"
proof (intro conjI impI)
  assume ok: "statusCode (fst (get_list env q w)) = 200"
  obtain resp w' where g: "get_list env q w = (resp, w')"
    by (cases "get_list env q w")
  with ok have "resp \<noteq> JsonResponse 500 (errorBody ''Failed to list reports'')"
    by auto
  with get_list_response [OF g] g
  show "\<exists>rows. fst (get_list env q w) = JsonResponse 200
               (JObj [(''success'', JBool True),
                      (''data'', JArr (map selectJson rows)),
                      (''pagination'', JObj
                         [(''page'', jsonNat (pageOf q)),
                          (''limit'', jsonNat (limitOf q)),
                          (''total'', jsonNat (length (filter (whereStatus (statusParam q)) (reports w)))),
                          (''pages'',
                             if limitOf q = 0 then JNull
                             else jsonInt \<lceil>real (length (filter (whereStatus (statusParam q)) (reports w)))
                                            / real (limitOf q)\<rceil>)])])"
    by (auto simp: pagesJson_def)
next
  assume "(limit q = None \<or> limit q = Some 20) \<and> (page q = None \<or> page q = Some 1)
        \<and> statusParam q = None \<and> faults w = []
        \<and> orderBy env (sortByOf q) (sortOrderOf q) (reports w) = Some rows
        \<and> mset rows = mset (reports w) \<and> length (reports w) \<le> 20"
  then show "get_list env q w
            = (JsonResponse 200
                 (JObj [(''success'', JBool True),
                        (''data'', JArr (map selectJson rows)),
                        (''pagination'', JObj
                           [(''page'', JNum 1), (''limit'', JNum 20),
                            (''total'', jsonNat (length (reports w))),
                            (''pages'', if reports w = [] then JNum 0 else JNum 1)])]), w)"
    using get_list_first_page by blast
qed

theorem list_pagination_witness:
  "(limit defaultQuery = None \<or> limit defaultQuery = Some 20)
   \<and> (page defaultQuery = None \<or> page defaultQuery = Some 1)
   \<and> statusParam defaultQuery = None \<and> faults worldWithReport = []
   \<and> orderBy sampleEnv (sortByOf defaultQuery) (sortOrderOf defaultQuery) (reports worldWithReport)
       = Some [sampleReport]
   \<and> mset [sampleReport] = mset (reports worldWithReport)
   \<and> length (reports worldWithReport) \<le> 20
   \<and> get_list sampleEnv defaultQuery worldWithReport
       = (JsonResponse 200
            (JObj [(''success'', JBool True),
                   (''data'', JArr [selectJson sampleReport]),
                   (''pagination'', JObj
                      [(''page'', JNum 1), (''limit'', JNum 20), (''total'', JNum 1),
                       (''pages'', JNum 1)])]), worldWithReport)
   \<and> statusCode (fst (get_list sampleEnv defaultQuery worldWithReport)) = 200"
proof -
  have p: "(limit defaultQuery = None \<or> limit defaultQuery = Some 20)
   \<and> (page defaultQuery = None \<or> page defaultQuery = Some 1)
   \<and> statusParam defaultQuery = None \<and> faults worldWithReport = []
   \<and> orderBy sampleEnv (sortByOf defaultQuery) (sortOrderOf defaultQuery) (reports worldWithReport)
       = Some [sampleReport]
   \<and> mset [sampleReport] = mset (reports worldWithReport)
   \<and> length (reports worldWithReport) \<le> 20"
    by (simp add: defaultQuery_def worldWithReport_def sampleEnv_def)
  note t = list_pagination [where q = defaultQuery and w = worldWithReport and env = sampleEnv
      and rows = "[sampleReport]"]
  from t p have g: "get_list sampleEnv defaultQuery worldWithReport
       = (JsonResponse 200
            (JObj [(''success'', JBool True),
                   (''data'', JArr [selectJson sampleReport]),
                   (''pagination'', JObj
                      [(''page'', JNum 1), (''limit'', JNum 20), (''total'', JNum 1),
                       (''pages'', JNum 1)])]), worldWithReport)"
    by (simp add: worldWithReport_def jsonNat_def)
  from g have s: "statusCode (fst (get_list sampleEnv defaultQuery worldWithReport)) = 200"
    by simp
  from p g s show ?thesis by blast
qed

theorem list_pagination_counterexample:
  "get_list sampleEnv
     \<lparr>page = None, limit = Some 20, statusParam = None, sortBy = None, sortOrder = None\<rparr>
     emptyWorld
     = (JsonResponse 200
          (JObj [(''success'', JBool True), (''data'', JArr []),
                 (''pagination'', JObj
                    [(''page'', JNum 1), (''limit'', JNum 20), (''total'', JNum 0),
                     (''pages'', JNum 0)])]), emptyWorld)"
  by (simp add: get_list_def pageOf_def limitOf_def sortByOf_def sortOrderOf_def sampleEnv_def
        emptyWorld_def prisma_findMany_def prisma_count_def external_def bindIO_def tryCatch_def
        retIO_def whereStatus_def pagesJson_def jsonNat_def jsonInt_def)

end
